theory Spec2Isabelle
  imports Main "HOL-Library.Word"
begin

chapter \<open>ads-async: wire structures and the asyncio client\<close>

text \<open>
  A shallow embedding of \<^verbatim>\<open>ads_async/structs.py\<close> (the ctypes wire records) and of
  \<^verbatim>\<open>ads_async/asyncio/client.py\<close> (notifications, blocking requests, symbols and the
  client itself). Python exceptions are values of \<open>error\<close>; a method that mutates its
  object before it raises returns the state next to the outcome. Objects that are shared
  by reference (notifications, symbols, blocking requests) live in heaps indexed by a
  reference, so that object identity can be stated. Log calls are not modelled.
\<close>

section \<open>Exceptions\<close>

datatype error = ValueError | IndexError | AttributeError | OSError | FailureResponse
  | MissingHandlerError | OtherException

section \<open>Python built-ins used by the wire structures\<close>

text \<open>
  Strings are lists of characters with code points below 256. \<open>isspace\<close> is the
  whitespace that \<^verbatim>\<open>int(str)\<close> skips around a number on that range: the ASCII
  whitespace 9 to 13 and 32, and the two spaces 133 and 160 (the separators 28 to 31
  are not skipped). \<open>isdigit\<close> is the ASCII decimal digits.
\<close>

definition isspace :: "char \<Rightarrow> bool" where
  "isspace c = ((of_char c :: nat) \<in> {9, 10, 11, 12, 13, 32, 133, 160})"

definition isdigit :: "char \<Rightarrow> bool" where
  "isdigit c = (48 \<le> (of_char c :: nat) \<and> (of_char c :: nat) \<le> 57)"

definition digit_value :: "char \<Rightarrow> nat" where
  "digit_value c = of_char c - 48"

text \<open>The text without the whitespace before and after it, as \<^verbatim>\<open>int(str)\<close> reads it.\<close>

definition strip :: "string \<Rightarrow> string" where
  "strip s = rev (dropWhile isspace (rev (dropWhile isspace s)))"

text \<open>
  The digit part of an integer literal accepted by \<^verbatim>\<open>int(str)\<close>: decimal digits, with
  single underscores allowed between two digits. The result is the digits without the
  underscores, \<open>None\<close> when the text is not of that shape.
\<close>

fun digits_of :: "string \<Rightarrow> string option" where
  "digits_of [] = None"
| "digits_of [c] = (if isdigit c then Some [c] else None)"
| "digits_of (c # d # r) =
     (if \<not> isdigit c then None
      else if d = CHR ''_'' then map_option ((#) c) (digits_of r)
      else map_option ((#) c) (digits_of (d # r)))"

definition int_of_digits :: "string \<Rightarrow> int" where
  "int_of_digits ds = foldl (\<lambda>a c. 10 * a + int (digit_value c)) 0 ds"

text \<open>
  \<^verbatim>\<open>int(s)\<close> for a string, base 10: surrounding whitespace is ignored, one sign is
  allowed, leading zeros are allowed; anything else raises \<^verbatim>\<open>ValueError\<close>. (The limit
  of recent interpreters on the number of digits is far above any input considered
  here and is left out.)
\<close>

definition py_int :: "string \<Rightarrow> error + int" where
  "py_int s =
     (case strip s of
        [] \<Rightarrow> Inl ValueError
      | c # r \<Rightarrow>
          if c = CHR ''-'' then
            (case digits_of r of None \<Rightarrow> Inl ValueError | Some ds \<Rightarrow> Inr (- int_of_digits ds))
          else if c = CHR ''+'' then
            (case digits_of r of None \<Rightarrow> Inl ValueError | Some ds \<Rightarrow> Inr (int_of_digits ds))
          else
            (case digits_of (c # r) of None \<Rightarrow> Inl ValueError | Some ds \<Rightarrow> Inr (int_of_digits ds)))"

text \<open>\<^verbatim>\<open>str(n)\<close> for a non-negative integer.\<close>

fun str_nat :: "nat \<Rightarrow> string" where
  "str_nat n =
     (if n < 10 then [char_of (48 + n)]
      else str_nat (n div 10) @ [char_of (48 + n mod 10)])"

text \<open>\<^verbatim>\<open>s.split(sep)\<close> for a one-character separator: never empty, keeps empty parts.\<close>

fun split :: "char \<Rightarrow> string \<Rightarrow> string list" where
  "split sep [] = [[]]"
| "split sep (c # cs) =
     (if c = sep then [] # split sep cs
      else (c # hd (split sep cs)) # tl (split sep cs))"

text \<open>\<^verbatim>\<open>sep.join(parts)\<close>.\<close>

fun join :: "string \<Rightarrow> string list \<Rightarrow> string" where
  "join sep [] = []"
| "join sep [x] = x"
| "join sep (x # y # r) = x @ sep @ join sep (y # r)"

text \<open>
  \<^verbatim>\<open>tuple(int(octet) for octet in parts)\<close>: the conversions run left to right and the
  first failure ends the whole expression.
\<close>

fun ints_of :: "string list \<Rightarrow> error + int list" where
  "ints_of [] = Inr []"
| "ints_of (p # ps) =
     (case py_int p of
        Inl e \<Rightarrow> Inl e
      | Inr i \<Rightarrow> (case ints_of ps of Inl e \<Rightarrow> Inl e | Inr is \<Rightarrow> Inr (i # is)))"

section \<open>AmsNetId\<close>

text \<open>
  \<^verbatim>\<open>AmsNetId\<close> has the single field \<^verbatim>\<open>octets: c_uint8 * 6\<close>. Constructing it from a
  tuple of Python integers initialises the array with the tuple: each integer is stored
  in a \<^verbatim>\<open>c_uint8\<close>, which keeps the low eight bits and checks no range; elements the
  tuple does not give stay zero, and more than six raise \<^verbatim>\<open>IndexError\<close>.
\<close>

record AmsNetId =
  octets :: "8 word list"

definition AmsNetId_init :: "int list \<Rightarrow> error + AmsNetId" where
  "AmsNetId_init parts =
     (if length parts > 6 then Inl IndexError
      else Inr \<lparr>octets = map word_of_int parts @ replicate (6 - length parts) 0\<rparr>)"

text \<open>
  \<^verbatim>\<open>AmsNetId.from_string\<close>: any \<^verbatim>\<open>ValueError\<close> of the conversion, and a number of parts
  other than six, is re-raised as \<^verbatim>\<open>ValueError('Not a valid AMS Net ID')\<close>; the
  structure is then built from the six parts.
\<close>

definition from_string :: "string \<Rightarrow> error + AmsNetId" where
  "from_string addr =
     (case ints_of (split CHR ''.'' addr) of
        Inl e \<Rightarrow> Inl ValueError
      | Inr parts \<Rightarrow>
          if length parts \<noteq> 6 then Inl ValueError
          else AmsNetId_init parts)"

text \<open>\<^verbatim>\<open>AmsNetId.__repr__\<close>: \<^verbatim>\<open>'.'.join(str(c) for c in self.octets)\<close>.\<close>

definition AmsNetId_repr :: "AmsNetId \<Rightarrow> string" where
  "AmsNetId_repr n = join ''.'' (map (\<lambda>c. str_nat (unat c)) (octets n))"

text \<open>The dotted text of a list of numbers, each in its shortest decimal form.\<close>

definition dotted :: "nat list \<Rightarrow> string" where
  "dotted ns = join ''.'' (map str_nat ns)"

section \<open>ctypes structures\<close>

text \<open>
  Every wire record derives from \<^verbatim>\<open>_AdsStructBase\<close>, a
  \<^verbatim>\<open>ctypes.LittleEndianStructure\<close> with \<^verbatim>\<open>_pack_ = 1\<close>. A record is described by
  the types of its \<^verbatim>\<open>_fields_\<close>; its size and the offsets of its fields are computed
  the way ctypes lays a structure out, so that padding is a result of the computation,
  not an assumption.
\<close>

datatype ctype = c_uint8 | c_uint16 | c_uint32 | c_uint64 | c_ubyte | c_char
  | Array ctype nat
  | Structure "ctype list"

text \<open>
  The alignment a field gets: its natural alignment, capped by \<^verbatim>\<open>_pack_\<close> when the
  structure sets one.
\<close>

definition effective_align :: "nat option \<Rightarrow> nat \<Rightarrow> nat" where
  "effective_align pack a = (case pack of None \<Rightarrow> a | Some p \<Rightarrow> min p a)"

text \<open>The next offset at or after \<open>off\<close> that is a multiple of \<open>a\<close>.\<close>

definition align_up :: "nat \<Rightarrow> nat \<Rightarrow> nat" where
  "align_up off a = (if a \<noteq> 0 \<and> off mod a \<noteq> 0 then off + (a - off mod a) else off)"

text \<open>
  \<open>stg pack t\<close> is the pair (size, alignment) ctypes keeps for a type. For a structure
  the fields are placed in order, each at the next offset aligned for it; the
  structure's alignment is the largest alignment among its fields and its size is
  rounded up to that alignment.
\<close>

fun stg :: "nat option \<Rightarrow> ctype \<Rightarrow> nat \<times> nat"
and stg_fields :: "nat option \<Rightarrow> ctype list \<Rightarrow> nat \<times> nat \<Rightarrow> nat \<times> nat" where
  "stg pack c_uint8 = (1, 1)"
| "stg pack c_uint16 = (2, 2)"
| "stg pack c_uint32 = (4, 4)"
| "stg pack c_uint64 = (8, 8)"
| "stg pack c_ubyte = (1, 1)"
| "stg pack c_char = (1, 1)"
| "stg pack (Array t n) = (fst (stg pack t) * n, snd (stg pack t))"
| "stg pack (Structure fs) =
     (let r = stg_fields pack fs (0, 1) in (align_up (fst r) (snd r), snd r))"
| "stg_fields pack [] acc = acc"
| "stg_fields pack (t # ts) acc =
     (let a = effective_align pack (snd (stg pack t));
          off = align_up (fst acc) a
      in stg_fields pack ts (off + fst (stg pack t), max (snd acc) a))"

definition sizeof :: "nat option \<Rightarrow> ctype \<Rightarrow> nat" where
  "sizeof pack t = fst (stg pack t)"

text \<open>The offset of every field of a structure, in order, starting at \<open>off\<close>.\<close>

fun field_offsets :: "nat option \<Rightarrow> ctype list \<Rightarrow> nat \<Rightarrow> nat list" where
  "field_offsets pack [] off = []"
| "field_offsets pack (t # ts) off =
     (let at = align_up off (effective_align pack (snd (stg pack t)))
      in at # field_offsets pack ts (at + sizeof pack t))"

text \<open>
  The \<open>n\<close> bytes of an integer field, least significant byte first. Storing into a
  ctypes integer keeps the low bits.
\<close>

fun le_bytes :: "nat \<Rightarrow> int \<Rightarrow> 8 word list" where
  "le_bytes 0 v = []"
| "le_bytes (Suc n) v = word_of_int v # le_bytes n (v div 256)"

text \<open>
  The buffer of a structure whose fields hold the given bytes: each field at its
  offset, zero bytes in any gap before it and after the last field up to the size.
\<close>

fun place_fields :: "nat option \<Rightarrow> (ctype \<times> 8 word list) list \<Rightarrow> nat \<Rightarrow> 8 word list" where
  "place_fields pack [] off = []"
| "place_fields pack (f # fs) off =
     (let at = align_up off (effective_align pack (snd (stg pack (fst f))))
      in replicate (at - off) 0 @ snd f @ place_fields pack fs (at + sizeof pack (fst f)))"

definition struct_bytes :: "nat option \<Rightarrow> (ctype \<times> 8 word list) list \<Rightarrow> 8 word list" where
  "struct_bytes pack fs =
     (let body = place_fields pack fs 0
      in body @ replicate (sizeof pack (Structure (map fst fs)) - length body) 0)"

text \<open>\<^verbatim>\<open>_AdsStructBase._pack_\<close>, inherited by every record below.\<close>

definition pack_AdsStructBase :: "nat option" where
  "pack_AdsStructBase = Some 1"

subsection \<open>The records and their \<^verbatim>\<open>_fields_\<close>\<close>

definition AmsNetId_fields :: "(string \<times> ctype) list" where
  "AmsNetId_fields = [(''octets'', Array c_uint8 6)]"

definition AmsNetId_t :: ctype where
  "AmsNetId_t = Structure (map snd AmsNetId_fields)"

text \<open>\<^verbatim>\<open>AmsAddr\<close>; \<open>port_raw\<close> is the field \<^verbatim>\<open>_port\<close>.\<close>

record AmsAddr =
  net_id :: AmsNetId
  port_raw :: "16 word"

definition AmsAddr_fields :: "(string \<times> ctype) list" where
  "AmsAddr_fields = [(''net_id'', AmsNetId_t), (''_port'', c_uint16)]"

definition AmsAddr_t :: ctype where
  "AmsAddr_t = Structure (map snd AmsAddr_fields)"

text \<open>\<^verbatim>\<open>AmsTcpHeader\<close>; \<open>tcp_length\<close> is its field \<^verbatim>\<open>length\<close>.\<close>

record AmsTcpHeader =
  reserved :: "16 word"
  tcp_length :: "32 word"

definition AmsTcpHeader_fields :: "(string \<times> ctype) list" where
  "AmsTcpHeader_fields = [(''reserved'', c_uint16), (''length'', c_uint32)]"

definition AmsTcpHeader_t :: ctype where
  "AmsTcpHeader_t = Structure (map snd AmsTcpHeader_fields)"

definition AmsTcpHeader_init :: "int \<Rightarrow> AmsTcpHeader" where
  "AmsTcpHeader_init len = \<lparr>reserved = 0, tcp_length = word_of_int len\<rparr>"

text \<open>
  \<^verbatim>\<open>AoEHeader\<close>; \<open>command_id_raw\<close> and \<open>state_flags_raw\<close> are the fields
  \<^verbatim>\<open>_command_id\<close> and \<^verbatim>\<open>_state_flags\<close>, \<open>hdr_length\<close> is the field \<^verbatim>\<open>length\<close>.
\<close>

record AoEHeader =
  target :: AmsAddr
  source :: AmsAddr
  command_id_raw :: "16 word"
  state_flags_raw :: "16 word"
  hdr_length :: "32 word"
  error_code :: "32 word"
  invoke_id :: "32 word"

definition AoEHeader_fields :: "(string \<times> ctype) list" where
  "AoEHeader_fields =
     [(''target'', AmsAddr_t),
      (''source'', AmsAddr_t),
      (''_command_id'', c_uint16),
      (''_state_flags'', c_uint16),
      (''length'', c_uint32),
      (''error_code'', c_uint32),
      (''invoke_id'', c_uint32)]"

definition AoEHeader_t :: ctype where
  "AoEHeader_t = Structure (map snd AoEHeader_fields)"

subsection \<open>Serialisation: the bytes of a record\<close>

definition AmsNetId_bytes :: "AmsNetId \<Rightarrow> 8 word list" where
  "AmsNetId_bytes n =
     struct_bytes pack_AdsStructBase
       (zip (map snd AmsNetId_fields) [concat (map (\<lambda>c. le_bytes 1 (uint c)) (octets n))])"

definition AmsAddr_bytes :: "AmsAddr \<Rightarrow> 8 word list" where
  "AmsAddr_bytes a =
     struct_bytes pack_AdsStructBase
       (zip (map snd AmsAddr_fields) [AmsNetId_bytes (net_id a), le_bytes 2 (uint (port_raw a))])"

definition AmsTcpHeader_bytes :: "AmsTcpHeader \<Rightarrow> 8 word list" where
  "AmsTcpHeader_bytes h =
     struct_bytes pack_AdsStructBase
       (zip (map snd AmsTcpHeader_fields)
         [le_bytes 2 (uint (reserved h)), le_bytes 4 (uint (tcp_length h))])"

definition AoEHeader_bytes :: "AoEHeader \<Rightarrow> 8 word list" where
  "AoEHeader_bytes h =
     struct_bytes pack_AdsStructBase
       (zip (map snd AoEHeader_fields)
         [AmsAddr_bytes (target h),
          AmsAddr_bytes (source h),
          le_bytes 2 (uint (command_id_raw h)),
          le_bytes 2 (uint (state_flags_raw h)),
          le_bytes 4 (uint (hdr_length h)),
          le_bytes 4 (uint (error_code h)),
          le_bytes 4 (uint (invoke_id h))])"



section \<open>Enum-backed fields\<close>

text \<open>
  Modelled from the spec: the enumeration classes of \<^verbatim>\<open>constants.py\<close> (not among the
  sources) are integer-valued enumerations; one is given here by the table of its
  members, name and value, and is a parameter of everything that uses it. A value seen
  by Python code is a member or a plain integer.
\<close>

datatype enum_value = Member string int | Raw int

fun int_value :: "enum_value \<Rightarrow> int" where
  "int_value (Member name v) = v"
| "int_value (Raw v) = v"

type_synonym enum_cls = "(string \<times> int) list"

text \<open>
  \<^verbatim>\<open>enum_cls(value)\<close>: the member with that integer value, \<^verbatim>\<open>ValueError\<close> when there is
  none.
\<close>

definition enum_call :: "enum_cls \<Rightarrow> enum_value \<Rightarrow> error + enum_value" where
  "enum_call cls value =
     (case find (\<lambda>m. snd m = int_value value) cls of
        None \<Rightarrow> Inl ValueError
      | Some m \<Rightarrow> Inr (Member (fst m) (snd m)))"

text \<open>
  \<^verbatim>\<open>_create_enum_property\<close>: \<open>fget\<close> receives the raw value of the field, \<open>fset\<close>
  returns the integer that \<^verbatim>\<open>setattr\<close> then stores in the field.
\<close>

definition fget :: "enum_cls \<Rightarrow> bool \<Rightarrow> int \<Rightarrow> error + enum_value" where
  "fget cls strict value =
     (case enum_call cls (Raw value) of
        Inr m \<Rightarrow> Inr m
      | Inl e \<Rightarrow> if \<not> strict then Inr (Raw value) else Inl e)"

definition fset :: "enum_cls \<Rightarrow> bool \<Rightarrow> enum_value \<Rightarrow> error + int" where
  "fset cls strict value =
     (if strict then
        (case enum_call cls value of Inl e \<Rightarrow> Inl e | Inr m \<Rightarrow> Inr (int_value m))
      else Inr (int_value value))"

text \<open>
  \<^verbatim>\<open>AmsAddr.port = _create_enum_property('_port', constants.AmsPort, strict=False)\<close>.
  The field is a \<^verbatim>\<open>c_uint16\<close>.
\<close>

definition AmsAddr_port :: "enum_cls \<Rightarrow> AmsAddr \<Rightarrow> error + enum_value" where
  "AmsAddr_port AmsPort a = fget AmsPort False (uint (port_raw a))"

definition AmsAddr_set_port :: "enum_cls \<Rightarrow> enum_value \<Rightarrow> AmsAddr \<Rightarrow> error + AmsAddr" where
  "AmsAddr_set_port AmsPort value a =
     (case fset AmsPort False value of
        Inl e \<Rightarrow> Inl e
      | Inr v \<Rightarrow> Inr (a\<lparr>port_raw := word_of_int v\<rparr>))"


section \<open>The asyncio client: data\<close>

text \<open>
  Objects that Python shares by reference are kept in heaps, total functions from a
  reference to the object, with a counter of the references handed out so far. Two
  references are the same object exactly when they are equal.
\<close>

type_synonym ref = nat

text \<open>
  Modelled from the spec: \<^verbatim>\<open>constants.AdsError.NOERR\<close> (\<^verbatim>\<open>constants.py\<close> is not among the
  sources), the result code "no error"; every other result code is non-zero.
\<close>

definition NOERR :: "32 word" where
  "NOERR = 0"

text \<open>
  Modelled from the spec: the payload records that travel in a frame. The requests are
  what the factory methods of the protocol-state collaborator (\<^verbatim>\<open>protocol.Client\<close>, not
  among the sources) build, kept as the factory's name and arguments. The responses
  carry the attributes the client reads: \<^verbatim>\<open>AoENotificationHandleResponse\<close> has
  \<^verbatim>\<open>result\<close> and \<^verbatim>\<open>handle\<close>, a generic \<^verbatim>\<open>AoEResponse\<close> has \<^verbatim>\<open>result\<close> and its data,
  \<^verbatim>\<open>AdsDeviceInfo\<close> (version, revision, build, name) has neither.
\<close>

datatype item =
    AddNotificationByIndex nat nat nat nat nat nat
  | RemoveNotification "32 word"
  | ReleaseHandle "32 word"
  | GetDeviceInformation
  | AoENotificationHandleResponse "32 word" "32 word"
  | AoEResponse "32 word" "8 word list"
  | AdsDeviceInfo nat nat nat string

text \<open>\<^verbatim>\<open>item.result\<close> and \<^verbatim>\<open>item.handle\<close>; \<open>None\<close> when the record has no such attribute.\<close>

fun item_result :: "item \<Rightarrow> 32 word option" where
  "item_result (AoENotificationHandleResponse res h) = Some res"
| "item_result (AoEResponse res d) = Some res"
| "item_result other = None"

fun item_handle :: "item \<Rightarrow> 32 word option" where
  "item_handle (AoENotificationHandleResponse res h) = Some h"
| "item_handle other = None"

text \<open>
  A pushed sample as \<^verbatim>\<open>Notification.process\<close> stores it:
  \<^verbatim>\<open>dict(header=header, timestamp=timestamp, sample=sample)\<close>.
\<close>

type_synonym notification_dict = "AoEHeader \<times> nat \<times> 8 word list"

text \<open>A user callback, known by its identity only.\<close>

type_synonym callback = nat

text \<open>
  What is handed to \<^verbatim>\<open>user_callback_executor.submit\<close>: the \<^verbatim>\<open>subscribe\<close> coroutine of
  a notification, or a user callback with the notification and a sample.
\<close>

datatype job = Subscribe ref | Call callback ref notification_dict

text \<open>
  The response handlers the client registers: the bound methods
  \<^verbatim>\<open>_BlockingRequest.got_response\<close> and \<^verbatim>\<open>Notification._response_handler\<close> of an object.
\<close>

datatype handler = GotResponse ref | ResponseHandler ref

text \<open>
  \<^verbatim>\<open>Notification\<close>. \<open>callbacks\<close> and \<open>callback_id\<close> belong to the base class
  \<^verbatim>\<open>utils.CallbackHandler\<close>; \<open>needs_reactivation\<close> is an attribute only once
  \<^verbatim>\<open>remove_callback\<close> has set it.
\<close>

record Notification =
  handle :: "32 word option"
  command :: item
  port :: "nat option"
  most_recent_notification :: "notification_dict option"
  callbacks :: "(nat \<times> callback) list"
  callback_id :: nat
  needs_reactivation :: "bool option"

text \<open>\<^verbatim>\<open>_BlockingRequest\<close>; \<open>event\<close> is whether \<^verbatim>\<open>_event\<close> is set, \<open>options\<close> the port.\<close>

record BlockingRequest =
  request :: item
  options :: "nat option"
  event :: bool
  header :: "AoEHeader option"
  response :: "item option"

text \<open>\<^verbatim>\<open>Symbol\<close>; \<open>symbol_handle\<close> is its attribute \<^verbatim>\<open>handle\<close>.\<close>

record Symbol =
  name :: "string option"
  index_group :: "nat option"
  index_offset :: "nat option"
  info :: "item option"
  symbol_handle :: "32 word option"

text \<open>
  The stream writer, as far as the client uses it: what was written and whether it was
  closed, in order. Whether \<^verbatim>\<open>drain\<close> and \<^verbatim>\<open>close\<close> raise \<^verbatim>\<open>OSError\<close> is up to the
  transport and is an input here.
\<close>

record frame =
  frame_invoke_id :: nat
  frame_items :: "item list"
  frame_port :: nat

datatype wire_event = Written frame | Closed

record StreamWriter =
  wire :: "wire_event list"
  drain_raises :: bool
  close_raises :: bool

text \<open>
  Modelled from the spec: the state of the protocol-state collaborator that the client
  touches. Invocation ids are assigned monotonically per connection;
  \<open>handle_to_notification\<close> is its index from notification handles to notifications.
\<close>

record Client =
  their_port :: nat
  next_invoke_id :: nat
  handle_to_notification :: "32 word \<rightharpoonup> ref"

text \<open>
  \<^verbatim>\<open>AsyncioClient\<close>. \<open>response_handlers\<close> is \<^verbatim>\<open>_response_handlers\<close>, a
  \<^verbatim>\<open>defaultdict(list)\<close>; \<open>symbols\<close> is \<^verbatim>\<open>_symbols\<close>, a dict in insertion order;
  \<open>writer\<close> is \<open>None\<close> while the attribute does not exist. \<open>user_callback_executor\<close>
  holds the jobs submitted so far. \<open>calls\<close> is not in the source: it records every
  call of a response handler, in order, so that "invoked once" can be stated.
\<close>

record AsyncioClient =
  client :: Client
  response_handlers :: "nat \<rightharpoonup> handler list"
  user_callback_executor :: "job list"
  reconnect_rate :: "nat option"
  symbols :: "(string \<times> ref) list"
  writer :: "StreamWriter option"
  Notifications :: "ref \<Rightarrow> Notification"
  n_Notifications :: nat
  BlockingRequests :: "ref \<Rightarrow> BlockingRequest"
  n_BlockingRequests :: nat
  Symbols :: "ref \<Rightarrow> Symbol"
  n_Symbols :: nat
  calls :: "(handler \<times> AoEHeader \<times> item) list"

section \<open>The asyncio client: operations\<close>

subsection \<open>Construction and connection\<close>

text \<open>
  \<^verbatim>\<open>Notification.__init__\<close>: the base class is initialised with \<^verbatim>\<open>handle=None\<close> and no
  callbacks, and no sample has been seen.
\<close>

definition Notification_init :: "item \<Rightarrow> nat option \<Rightarrow> Notification" where
  "Notification_init cmd p =
     \<lparr>handle = None, command = cmd, port = p, most_recent_notification = None,
      callbacks = [], callback_id = 0, needs_reactivation = None\<rparr>"

text \<open>\<^verbatim>\<open>_BlockingRequest.__init__\<close>.\<close>

definition BlockingRequest_init :: "item \<Rightarrow> nat option \<Rightarrow> BlockingRequest" where
  "BlockingRequest_init req p =
     \<lparr>request = req, options = p, event = False, header = None, response = None\<rparr>"

text \<open>\<^verbatim>\<open>Symbol.__init__\<close>, as \<^verbatim>\<open>get_symbol_by_name\<close> calls it: \<^verbatim>\<open>Symbol(self, name=name)\<close>.\<close>

definition Symbol_init :: "string \<Rightarrow> Symbol" where
  "Symbol_init nm =
     \<lparr>name = Some nm, index_group = None, index_offset = None, info = None,
      symbol_handle = None\<rparr>"

text \<open>
  \<^verbatim>\<open>AsyncioClient.__init__\<close>. It assigns no \<^verbatim>\<open>writer\<close>: the class only annotates the
  attribute. The target port of the collaborator and the reconnect rate are arguments.
\<close>

definition AsyncioClient_init :: "nat \<Rightarrow> nat option \<Rightarrow> AsyncioClient" where
  "AsyncioClient_init target_port rate =
     \<lparr>client = \<lparr>their_port = target_port, next_invoke_id = 0,
                 handle_to_notification = Map.empty\<rparr>,
      response_handlers = Map.empty,
      user_callback_executor = [],
      reconnect_rate = rate,
      symbols = [],
      writer = None,
      Notifications = (\<lambda>r. Notification_init GetDeviceInformation None),
      n_Notifications = 0,
      BlockingRequests = (\<lambda>r. BlockingRequest_init GetDeviceInformation None),
      n_BlockingRequests = 0,
      Symbols = (\<lambda>r. Symbol_init []),
      n_Symbols = 0,
      calls = []\<rparr>"

text \<open>
  The one place that assigns \<^verbatim>\<open>self.writer\<close>: the \<^verbatim>\<open>_connect\<close> loop, when
  \<^verbatim>\<open>asyncio.open_connection\<close> has succeeded.
\<close>

definition connection_opened :: "StreamWriter \<Rightarrow> AsyncioClient \<Rightarrow> AsyncioClient" where
  "connection_opened w s = s\<lparr>writer := Some w\<rparr>"

subsection \<open>Sending\<close>

text \<open>
  Modelled from the spec: \<^verbatim>\<open>protocol.Client.request_to_wire\<close> encodes the items into one
  frame under the next invocation id and returns the id with the frame.
\<close>

definition request_to_wire :: "item list \<Rightarrow> nat \<Rightarrow> Client \<Rightarrow> (nat \<times> frame) \<times> Client" where
  "request_to_wire items p c =
     ((next_invoke_id c,
       \<lparr>frame_invoke_id = next_invoke_id c, frame_items = items, frame_port = p\<rparr>),
      c\<lparr>next_invoke_id := next_invoke_id c + 1\<rparr>)"

text \<open>\<^verbatim>\<open>port or self.client.their_port\<close>: \<^verbatim>\<open>None\<close> and 0 are both false.\<close>

definition port_or :: "nat option \<Rightarrow> nat \<Rightarrow> nat" where
  "port_or p d = (case p of None \<Rightarrow> d | Some v \<Rightarrow> if v = 0 then d else v)"

text \<open>\<^verbatim>\<open>self._response_handlers[invoke_id].append(response_handler)\<close> on the defaultdict.\<close>

definition append_handler :: "nat \<Rightarrow> handler \<Rightarrow> (nat \<rightharpoonup> handler list) \<Rightarrow> (nat \<rightharpoonup> handler list)" where
  "append_handler i h table =
     table(i \<mapsto> (case table i of None \<Rightarrow> [] | Some hs \<Rightarrow> hs) @ [h])"

text \<open>
  \<^verbatim>\<open>AsyncioClient.send\<close>. The handler is registered before the writer is touched;
  \<^verbatim>\<open>self.writer\<close> raises \<^verbatim>\<open>AttributeError\<close> while the attribute does not exist.
\<close>

definition send ::
  "item list \<Rightarrow> nat option \<Rightarrow> handler option \<Rightarrow> AsyncioClient \<Rightarrow> (error + nat) \<times> AsyncioClient" where
  "send items p response_handler s =
     (let wired = request_to_wire items (port_or p (their_port (client s))) (client s);
          invoke_id = fst (fst wired);
          bytes_to_send = snd (fst wired);
          s1 = s\<lparr>client := snd wired\<rparr>;
          s2 = (case response_handler of
                  None \<Rightarrow> s1
                | Some h \<Rightarrow>
                    s1\<lparr>response_handlers := append_handler invoke_id h (response_handlers s1)\<rparr>)
      in case writer s2 of
           None \<Rightarrow> (Inl AttributeError, s2)
         | Some w \<Rightarrow>
             (let s3 = s2\<lparr>writer := Some (w\<lparr>wire := wire w @ [Written bytes_to_send]\<rparr>)\<rparr>
              in if drain_raises w then (Inl OSError, s3) else (Inr invoke_id, s3)))"

subsection \<open>Notification\<close>

text \<open>
  Modelled from the spec: \<^verbatim>\<open>utils.CallbackHandler\<close> (not among the sources) registers a
  callback under a token, deregisters by token, and fans a sample out to every
  registered callback through the callback executor. Tokens come from a counter.
\<close>

definition CallbackHandler_add_callback :: "callback \<Rightarrow> Notification \<Rightarrow> nat \<times> Notification" where
  "CallbackHandler_add_callback func n =
     (callback_id n,
      n\<lparr>callbacks := callbacks n @ [(callback_id n, func)], callback_id := callback_id n + 1\<rparr>)"

definition CallbackHandler_remove_callback :: "nat \<Rightarrow> Notification \<Rightarrow> Notification" where
  "CallbackHandler_remove_callback token n =
     n\<lparr>callbacks := filter (\<lambda>cb. fst cb \<noteq> token) (callbacks n)\<rparr>"

definition CallbackHandler_process :: "ref \<Rightarrow> notification_dict \<Rightarrow> Notification \<Rightarrow> job list" where
  "CallbackHandler_process r notification n =
     map (\<lambda>cb. Call (snd cb) r notification) (callbacks n)"

text \<open>Replacing the notification behind a reference.\<close>

definition set_Notification :: "ref \<Rightarrow> Notification \<Rightarrow> AsyncioClient \<Rightarrow> AsyncioClient" where
  "set_Notification r n s = s\<lparr>Notifications := (Notifications s)(r := n)\<rparr>"

text \<open>
  \<^verbatim>\<open>Notification._response_handler\<close>. Reading \<^verbatim>\<open>response.result\<close> or
  \<^verbatim>\<open>response.handle\<close> of a record without that attribute raises \<^verbatim>\<open>AttributeError\<close>.
\<close>

definition Notification_response_handler ::
  "ref \<Rightarrow> AoEHeader \<Rightarrow> item \<Rightarrow> AsyncioClient \<Rightarrow> (error + unit) \<times> AsyncioClient" where
  "Notification_response_handler r hdr resp s =
     (case item_result resp of
        None \<Rightarrow> (Inl AttributeError, s)
      | Some res \<Rightarrow>
          if res = NOERR then
            (case item_handle resp of
               None \<Rightarrow> (Inl AttributeError, s)
             | Some h \<Rightarrow>
                 (let s1 = set_Notification r ((Notifications s r)\<lparr>handle := Some h\<rparr>) s
                  in (Inr (),
                      s1\<lparr>client := (client s1)\<lparr>handle_to_notification :=
                                      (handle_to_notification (client s1))(h \<mapsto> r)\<rparr>\<rparr>)))
          else (Inr (), s))"

text \<open>
  \<^verbatim>\<open>Notification.process\<close>: the sample goes to every registered callback, then it
  becomes the most recent one.
\<close>

definition Notification_process ::
  "ref \<Rightarrow> AoEHeader \<Rightarrow> nat \<Rightarrow> 8 word list \<Rightarrow> AsyncioClient \<Rightarrow> AsyncioClient" where
  "Notification_process r hdr timestamp sample s =
     (let notification = (hdr, timestamp, sample);
          s1 = s\<lparr>user_callback_executor :=
                  user_callback_executor s @
                  CallbackHandler_process r notification (Notifications s r)\<rparr>
      in set_Notification r
           ((Notifications s1 r)\<lparr>most_recent_notification := Some notification\<rparr>) s1)"

text \<open>
  \<^verbatim>\<open>Notification._subscribe\<close> submits the coroutine \<^verbatim>\<open>subscribe\<close>; \<open>run_subscribe\<close> is
  that coroutine when the executor runs it.
\<close>

definition Notification_subscribe :: "ref \<Rightarrow> AsyncioClient \<Rightarrow> AsyncioClient" where
  "Notification_subscribe r s =
     s\<lparr>user_callback_executor := user_callback_executor s @ [Subscribe r]\<rparr>"

definition run_subscribe :: "ref \<Rightarrow> AsyncioClient \<Rightarrow> (error + nat) \<times> AsyncioClient" where
  "run_subscribe r s =
     send [command (Notifications s r)] (port (Notifications s r)) (Some (ResponseHandler r)) s"

text \<open>
  \<^verbatim>\<open>self.owner.remove_notification(handle)\<close>: the owner is the \<^verbatim>\<open>AsyncioClient\<close>, which
  defines no attribute of that name, so the lookup raises \<^verbatim>\<open>AttributeError\<close>.
\<close>

definition owner_remove_notification ::
  "32 word \<Rightarrow> AsyncioClient \<Rightarrow> (error + unit) \<times> AsyncioClient" where
  "owner_remove_notification h s = (Inl AttributeError, s)"

text \<open>
  \<^verbatim>\<open>Notification._unsubscribe\<close>. Under the lock the handle is copied and cleared; the
  test after the lock reads \<^verbatim>\<open>self.handle\<close> again.
\<close>

definition Notification_unsubscribe :: "ref \<Rightarrow> AsyncioClient \<Rightarrow> (error + unit) \<times> AsyncioClient" where
  "Notification_unsubscribe r s =
     (case handle (Notifications s r) of
        None \<Rightarrow> (Inr (), s)
      | Some h \<Rightarrow>
          (let s1 = set_Notification r
                      ((Notifications s r)\<lparr>handle := None, most_recent_notification := None\<rparr>) s
           in if handle (Notifications s1 r) \<noteq> None then owner_remove_notification h s1
              else (Inr (), s1)))"

text \<open>\<^verbatim>\<open>Notification.add_callback\<close>.\<close>

definition Notification_add_callback :: "ref \<Rightarrow> callback \<Rightarrow> AsyncioClient \<Rightarrow> nat \<times> AsyncioClient" where
  "Notification_add_callback r func s =
     (let was_empty = (callbacks (Notifications s r) = []);
          added = CallbackHandler_add_callback func (Notifications s r);
          cb_id = fst added;
          s1 = set_Notification r (snd added) s;
          most_recent = most_recent_notification (Notifications s1 r)
      in if was_empty then (cb_id, Notification_subscribe r s1)
         else (case most_recent of
                 None \<Rightarrow> (cb_id, s1)
               | Some notification \<Rightarrow>
                   (cb_id,
                    s1\<lparr>user_callback_executor :=
                         user_callback_executor s1 @ [Call func r notification]\<rparr>)))"

text \<open>\<^verbatim>\<open>Notification.remove_callback\<close>.\<close>

definition Notification_remove_callback ::
  "ref \<Rightarrow> nat \<Rightarrow> AsyncioClient \<Rightarrow> (error + unit) \<times> AsyncioClient" where
  "Notification_remove_callback r token s =
     (let s1 = set_Notification r (CallbackHandler_remove_callback token (Notifications s r)) s
      in if callbacks (Notifications s1 r) = [] then
           (case Notification_unsubscribe r s1 of
              (Inl e, s2) \<Rightarrow> (Inl e, s2)
            | (Inr u, s2) \<Rightarrow>
                (Inr (),
                 set_Notification r
                   ((Notifications s2 r)\<lparr>most_recent_notification := None,
                                          needs_reactivation := Some False\<rparr>) s2))
         else (Inr (), s1))"

text \<open>
  \<^verbatim>\<open>AsyncioClient.add_notification_by_index\<close>: a new \<^verbatim>\<open>Notification\<close> around the command
  the collaborator's factory builds.
\<close>

definition add_notification_by_index ::
  "nat \<Rightarrow> nat \<Rightarrow> nat \<Rightarrow> nat \<Rightarrow> nat \<Rightarrow> nat \<Rightarrow> nat option \<Rightarrow> AsyncioClient \<Rightarrow> ref \<times> AsyncioClient" where
  "add_notification_by_index ig io len mode max_delay cycle_time p s =
     (let r = n_Notifications s
      in (r,
          (set_Notification r
             (Notification_init (AddNotificationByIndex ig io len mode max_delay cycle_time) p) s)
          \<lparr>n_Notifications := r + 1\<rparr>))"

subsection \<open>Inbound dispatch\<close>

text \<open>Replacing the blocking request behind a reference.\<close>

definition set_BlockingRequest :: "ref \<Rightarrow> BlockingRequest \<Rightarrow> AsyncioClient \<Rightarrow> AsyncioClient" where
  "set_BlockingRequest r b s = s\<lparr>BlockingRequests := (BlockingRequests s)(r := b)\<rparr>"

text \<open>\<^verbatim>\<open>_BlockingRequest.got_response\<close>.\<close>

definition got_response ::
  "ref \<Rightarrow> AoEHeader \<Rightarrow> item \<Rightarrow> AsyncioClient \<Rightarrow> (error + unit) \<times> AsyncioClient" where
  "got_response r hdr resp s =
     (Inr (),
      set_BlockingRequest r
        ((BlockingRequests s r)\<lparr>header := Some hdr, response := Some resp, event := True\<rparr>) s)"

text \<open>\<^verbatim>\<open>await handler(header, item)\<close> for the two kinds of handler.\<close>

fun call_handler ::
  "handler \<Rightarrow> AoEHeader \<Rightarrow> item \<Rightarrow> AsyncioClient \<Rightarrow> (error + unit) \<times> AsyncioClient" where
  "call_handler (GotResponse r) hdr it s = got_response r hdr it s"
| "call_handler (ResponseHandler r) hdr it s = Notification_response_handler r hdr it s"

text \<open>
  The loop \<^verbatim>\<open>for handler in invoke_id_handlers\<close>: each call is recorded in \<open>calls\<close>;
  an exception of a handler is caught and logged, and the loop goes on with the state
  the handler left.
\<close>

fun run_handlers :: "handler list \<Rightarrow> AoEHeader \<Rightarrow> item \<Rightarrow> AsyncioClient \<Rightarrow> AsyncioClient" where
  "run_handlers [] hdr it s = s"
| "run_handlers (h # hs) hdr it s =
     run_handlers hs hdr it
       (snd (call_handler h hdr it (s\<lparr>calls := calls s @ [(h, hdr, it)]\<rparr>)))"

text \<open>
  \<^verbatim>\<open>AsyncioClient._handle_command\<close>. The collaborator's \<^verbatim>\<open>handle_command\<close> is the
  parameter \<open>hc\<close>: it acts on the collaborator's state and returns or raises; its
  result is dropped and its exceptions are caught and logged.
\<close>

definition handle_command ::
  "(AoEHeader \<Rightarrow> item \<Rightarrow> Client \<Rightarrow> (error + unit) \<times> Client) \<Rightarrow>
   AoEHeader \<Rightarrow> item \<Rightarrow> AsyncioClient \<Rightarrow> AsyncioClient" where
  "handle_command hc hdr it s =
     (let invoke_id_handlers =
            (case response_handlers s (unat (invoke_id hdr)) of None \<Rightarrow> [] | Some hs \<Rightarrow> hs);
          s1 = s\<lparr>client := snd (hc hdr it (client s))\<rparr>
      in run_handlers invoke_id_handlers hdr it s1)"

subsection \<open>Blocking requests\<close>

text \<open>Python values, as far as \<^verbatim>\<open>write_and_read\<close> compares them.\<close>

datatype pyvalue = PyNone | PyInt int | PyItem item | PyHeader AoEHeader | PyObject

text \<open>
  The attributes of a \<^verbatim>\<open>_BlockingRequest\<close>: those \<^verbatim>\<open>__init__\<close> assigns and the methods
  of the class. The annotations in the class body create no attribute. \<open>None\<close> is "no
  such attribute".
\<close>

definition BlockingRequest_attr :: "BlockingRequest \<Rightarrow> string \<Rightarrow> pyvalue option" where
  "BlockingRequest_attr req attr =
     (if attr = ''owner'' then Some PyObject
      else if attr = ''request'' then Some (PyItem (request req))
      else if attr = ''options'' then Some PyObject
      else if attr = ''_event'' then Some PyObject
      else if attr = ''header'' then
        Some (case header req of None \<Rightarrow> PyNone | Some h \<Rightarrow> PyHeader h)
      else if attr = ''response'' then
        Some (case response req of None \<Rightarrow> PyNone | Some it \<Rightarrow> PyItem it)
      else if attr \<in> {''__aenter__'', ''__aexit__'', ''got_response'', ''wait''} then Some PyObject
      else None)"

text \<open>\<^verbatim>\<open>getattr(req, attr, dflt)\<close>.\<close>

definition getattr :: "BlockingRequest \<Rightarrow> string \<Rightarrow> pyvalue \<Rightarrow> pyvalue" where
  "getattr req attr dflt =
     (case BlockingRequest_attr req attr of None \<Rightarrow> dflt | Some v \<Rightarrow> v)"

text \<open>
  \<^verbatim>\<open>AsyncioClient.write_and_read\<close> is a coroutine that suspends in \<^verbatim>\<open>req.wait()\<close>. It is
  modelled in its two halves. \<open>write_and_read_send\<close> is the part before the wait:
  the request object is made and \<^verbatim>\<open>__aenter__\<close> sends the item with
  \<^verbatim>\<open>got_response\<close> as the response handler. \<open>write_and_read_resume\<close> is the part from
  the wait on: \<open>None\<close> while the event is not set (the caller stays suspended),
  otherwise the outcome of the call.
\<close>

definition write_and_read_send ::
  "item \<Rightarrow> nat option \<Rightarrow> AsyncioClient \<Rightarrow> (error + ref) \<times> AsyncioClient" where
  "write_and_read_send it p s =
     (let r = n_BlockingRequests s;
          s1 = (set_BlockingRequest r (BlockingRequest_init it p) s)\<lparr>n_BlockingRequests := r + 1\<rparr>
      in case send [request (BlockingRequests s1 r)] (options (BlockingRequests s1 r))
                (Some (GotResponse r)) s1 of
           (Inl e, s2) \<Rightarrow> (Inl e, s2)
         | (Inr sent_id, s2) \<Rightarrow> (Inr r, s2))"

definition write_and_read_resume :: "ref \<Rightarrow> AsyncioClient \<Rightarrow> (error + item option) option" where
  "write_and_read_resume r s =
     (let req = BlockingRequests s r
      in if \<not> event req then None
         else (let result = getattr req ''result'' PyNone
               in if result \<noteq> PyNone \<and> result \<noteq> PyInt (uint NOERR)
                  then Some (Inl FailureResponse)
                  else Some (Inr (response req))))"

subsection \<open>Symbols and closing\<close>



text \<open>
  \<^verbatim>\<open>AsyncioClient.get_symbol_by_name\<close>: the cached symbol, or a new one that is put in
  the cache.
\<close>

definition get_symbol_by_name :: "string \<Rightarrow> AsyncioClient \<Rightarrow> ref \<times> AsyncioClient" where
  "get_symbol_by_name nm s =
     (case map_of (symbols s) nm of
        Some r \<Rightarrow> (r, s)
      | None \<Rightarrow>
          (let r = n_Symbols s
           in (r,
               s\<lparr>Symbols := (Symbols s)(r := Symbol_init nm),
                 n_Symbols := r + 1,
                 symbols := symbols s @ [(nm, r)]\<rparr>)))"

text \<open>
  The shape of the cache that \<open>get_symbol_by_name\<close> builds: the cached symbols are
  distinct objects, each one allocated.
\<close>

definition cache_wf :: "AsyncioClient \<Rightarrow> bool" where
  "cache_wf s =
     (distinct (map snd (symbols s)) \<and> list_all (\<lambda>r. r < n_Symbols s) (map snd (symbols s)))"




section \<open>Runs of the client\<close>

text \<open>
  What can happen to a client between two observations: a callback is added to or
  removed from a notification, a sample is pushed to a notification, the executor runs
  a submitted \<^verbatim>\<open>subscribe\<close>, or the read loop dispatches an inbound frame. An
  exception of \<^verbatim>\<open>remove_callback\<close> or of \<^verbatim>\<open>subscribe\<close> goes to its caller or to the
  executor; the client goes on from the state it left.
\<close>

datatype client_event =
    AddCallback ref callback
  | RemoveCallback ref nat
  | Process ref AoEHeader nat "8 word list"
  | RunSubscribe ref
  | Frame AoEHeader item

fun client_step ::
  "(AoEHeader \<Rightarrow> item \<Rightarrow> Client \<Rightarrow> (error + unit) \<times> Client) \<Rightarrow>
   client_event \<Rightarrow> AsyncioClient \<Rightarrow> AsyncioClient" where
  "client_step hc (AddCallback r func) s = snd (Notification_add_callback r func s)"
| "client_step hc (RemoveCallback r token) s = snd (Notification_remove_callback r token s)"
| "client_step hc (Process r hdr timestamp sample) s = Notification_process r hdr timestamp sample s"
| "client_step hc (RunSubscribe r) s = snd (run_subscribe r s)"
| "client_step hc (Frame hdr it) s = handle_command hc hdr it s"

definition client_run ::
  "(AoEHeader \<Rightarrow> item \<Rightarrow> Client \<Rightarrow> (error + unit) \<times> Client) \<Rightarrow>
   client_event list \<Rightarrow> AsyncioClient \<Rightarrow> AsyncioClient" where
  "client_run hc evs s = fold (client_step hc) evs s"

text \<open>
  An event confirms the notification \<open>r\<close> in a state when it is an inbound frame whose
  record carries the result "no error" and the response handler of \<open>r\<close> is among the
  handlers registered, in that state, for the frame's invocation id. A run is
  unconfirmed for \<open>r\<close> when none of its events confirms \<open>r\<close> in the state it
  meets.
\<close>

fun confirms :: "ref \<Rightarrow> client_event \<Rightarrow> AsyncioClient \<Rightarrow> bool" where
  "confirms r (Frame hdr it) s =
     (item_result it = Some NOERR \<and>
      ResponseHandler r \<in>
        set (case response_handlers s (unat (invoke_id hdr)) of None \<Rightarrow> [] | Some hs \<Rightarrow> hs))"
| "confirms r ev s = False"

fun unconfirmed ::
  "(AoEHeader \<Rightarrow> item \<Rightarrow> Client \<Rightarrow> (error + unit) \<times> Client) \<Rightarrow>
   ref \<Rightarrow> client_event list \<Rightarrow> AsyncioClient \<Rightarrow> bool" where
  "unconfirmed hc r [] s = True"
| "unconfirmed hc r (ev # evs) s =
     (\<not> confirms r ev s \<and> unconfirmed hc r evs (client_step hc ev s))"

subsection \<open>A concrete session\<close>

text \<open>
  A client for target port 851 whose connection has been opened on a healthy writer, a
  collaborator that has no generic handler for any command, and the header of a
  response that carries a given invocation id.
\<close>

definition session_writer :: StreamWriter where
  "session_writer = \<lparr>wire = [], drain_raises = False, close_raises = False\<rparr>"

definition session_client :: AsyncioClient where
  "session_client = connection_opened session_writer (AsyncioClient_init 851 (Some 10))"

definition no_generic_handler :: "AoEHeader \<Rightarrow> item \<Rightarrow> Client \<Rightarrow> (error + unit) \<times> Client" where
  "no_generic_handler hdr it c = (Inl MissingHandlerError, c)"

definition response_header :: "32 word \<Rightarrow> AoEHeader" where
  "response_header i =
     \<lparr>target = \<lparr>net_id = \<lparr>octets = [172, 21, 148, 164, 1, 1]\<rparr>, port_raw = 32768\<rparr>,
      source = \<lparr>net_id = \<lparr>octets = [172, 21, 148, 227, 1, 1]\<rparr>, port_raw = 851\<rparr>,
      command_id_raw = 6, state_flags_raw = 5, hdr_length = 8, error_code = 0,
      invoke_id = i\<rparr>"

text \<open>
  The session of the specification's scenario: \<^verbatim>\<open>add_notification_by_index(1, 65535,
  255)\<close>, a first callback, the executor running the subscribe.
\<close>

definition session_subscribing :: AsyncioClient where
  "session_subscribing =
     client_run no_generic_handler [AddCallback 0 7, RunSubscribe 0]
       (snd (add_notification_by_index 1 65535 255 3 1 100 None session_client))"

text \<open>
  Then the server confirms with handle 42, and pushes one sample.
\<close>

definition session_subscribed :: AsyncioClient where
  "session_subscribed =
     client_run no_generic_handler
       [Frame (response_header 0) (AoENotificationHandleResponse NOERR 42),
        Process 0 (response_header 0) 1000 [1, 2]]
       session_subscribing"


section \<open>Proofs: AmsNetId text form\<close>

declare str_nat.simps [simp del]

lemma isdigit_char_of: "(d::nat) < 10 \<Longrightarrow> isdigit (char_of (48 + d))"
  by (simp add: isdigit_def)

lemma digit_value_char_of: "(d::nat) < 10 \<Longrightarrow> digit_value (char_of (48 + d)) = d"
  by (simp add: digit_value_def)

lemma str_nat_digits: "list_all isdigit (str_nat n)"
proof (induction n rule: str_nat.induct)
  case (1 n)
  show ?case
  proof (cases "n < 10")
    case True
    then show ?thesis by (subst str_nat.simps) (simp add: isdigit_char_of)
  next
    case False
    with 1 show ?thesis by (subst str_nat.simps) (simp add: isdigit_char_of)
  qed
qed

lemma str_nat_nonempty: "str_nat n \<noteq> []"
  by (subst str_nat.simps) simp

lemma digits_of_all_digits: "s \<noteq> [] \<Longrightarrow> list_all isdigit s \<Longrightarrow> digits_of s = Some s"
proof (induction s rule: digits_of.induct)
  case 1
  then show ?case by simp
next
  case (2 c)
  then show ?case by simp
next
  case (3 c d r)
  then have "d \<noteq> CHR ''_''" by (auto simp: isdigit_def)
  with 3 show ?case by simp
qed

lemma int_of_digits_snoc: "int_of_digits (ds @ [c]) = 10 * int_of_digits ds + int (digit_value c)"
  by (simp add: int_of_digits_def)

lemma int_of_digits_str_nat: "int_of_digits (str_nat n) = int n"
proof (induction n rule: str_nat.induct)
  case (1 n)
  show ?case
  proof (cases "n < 10")
    case True
    then show ?thesis
      by (subst str_nat.simps) (simp add: int_of_digits_def digit_value_char_of)
  next
    case False
    with 1 have "int_of_digits (str_nat (n div 10)) = int (n div 10)" by simp
    moreover have "10 * int (n div 10) + int (n mod 10) = int n"
      by presburger
    ultimately show ?thesis using False
      by (subst str_nat.simps) (simp add: int_of_digits_snoc digit_value_char_of)
  qed
qed

lemma digit_not_space: "isdigit c \<Longrightarrow> \<not> isspace c"
  by (auto simp: isdigit_def isspace_def)

lemma strip_digits: "s \<noteq> [] \<Longrightarrow> list_all isdigit s \<Longrightarrow> strip s = s"
proof -
  assume ne: "s \<noteq> []" and dg: "list_all isdigit s"
  from ne dg have "\<not> isspace (hd s)"
    by (cases s) (auto dest: digit_not_space)
  with ne have a: "dropWhile isspace s = s"
    by (simp add: dropWhile_eq_self_iff)
  from ne dg have "\<not> isspace (hd (rev s))"
    by (simp add: hd_rev list_all_iff digit_not_space)
  then have "dropWhile isspace (rev s) = rev s"
    by (simp add: dropWhile_eq_self_iff)
  with a show ?thesis by (simp add: strip_def)
qed

lemma py_int_str_nat: "py_int (str_nat n) = Inr (int n)"
proof -
  have ne: "str_nat n \<noteq> []" by (rule str_nat_nonempty)
  have dg: "list_all isdigit (str_nat n)" by (rule str_nat_digits)
  obtain c r where cr: "str_nat n = c # r" using ne by (cases "str_nat n") auto
  with dg have "isdigit c" by simp
  then have "c \<noteq> CHR ''-''" "c \<noteq> CHR ''+''" by (auto simp: isdigit_def)
  moreover have "digits_of (c # r) = Some (c # r)"
    using digits_of_all_digits [OF ne dg] cr by simp
  moreover have "strip (str_nat n) = c # r"
    using strip_digits [OF ne dg] cr by simp
  ultimately show ?thesis
    using int_of_digits_str_nat [of n] cr by (simp add: py_int_def)
qed

lemma split_no_sep: "sep \<notin> set p \<Longrightarrow> split sep p = [p]"
  by (induction p) auto

lemma split_append_sep: "sep \<notin> set p \<Longrightarrow> split sep (p @ sep # rest) = p # split sep rest"
  by (induction p) auto

lemma split_join:
  "ps \<noteq> [] \<Longrightarrow> list_all (\<lambda>p. sep \<notin> set p) ps \<Longrightarrow> split sep (join [sep] ps) = ps"
proof (induction ps)
  case Nil
  then show ?case by simp
next
  case (Cons p ps)
  show ?case
  proof (cases ps)
    case Nil
    with Cons.prems show ?thesis by (simp add: split_no_sep)
  next
    case (Cons q qs)
    with Cons.IH Cons.prems have "split sep (join [sep] (q # qs)) = q # qs" by simp
    with Cons Cons.prems show ?thesis by (simp add: split_append_sep)
  qed
qed

lemma ints_of_str_nat: "ints_of (map str_nat ns) = Inr (map int ns)"
  by (induction ns) (simp_all add: py_int_str_nat)

lemma str_nat_no_dot: "CHR ''.'' \<notin> set (str_nat n)"
proof
  assume "CHR ''.'' \<in> set (str_nat n)"
  with str_nat_digits [of n] have "isdigit CHR ''.''" by (simp add: list_all_iff)
  then show False by (simp add: isdigit_def)
qed

text \<open>
  Claim C5, as amended. For every list of six octets (numbers below 256), the dotted
  string made of their shortest decimal forms is accepted by \<open>from_string\<close>, the
  result holds exactly those octets, and formatting it gives the string back.
\<close>

theorem from_string_round_trip:
  assumes "length ns = 6" and "list_all (\<lambda>n. n < 256) ns"
  shows "from_string (dotted ns) = Inr \<lparr>octets = map of_nat ns\<rparr> \<and>
         AmsNetId_repr \<lparr>octets = map of_nat ns\<rparr> = dotted ns"
proof -
  from assms(1) have ne: "map str_nat ns \<noteq> []" by auto
  have "list_all (\<lambda>p. CHR ''.'' \<notin> set p) (map str_nat ns)"
    by (simp add: list_all_iff str_nat_no_dot)
  with ne have sp: "split CHR ''.'' (dotted ns) = map str_nat ns"
    unfolding dotted_def by (rule split_join)
  have a: "from_string (dotted ns) = Inr \<lparr>octets = map of_nat ns\<rparr>"
    using assms(1) by (simp add: from_string_def sp ints_of_str_nat AmsNetId_init_def comp_def)
  have "map (\<lambda>c. str_nat (unat c)) (map of_nat ns :: 8 word list) = map str_nat ns"
    using assms(2) by (induction ns) (simp_all add: unat_of_nat)
  then have b: "AmsNetId_repr \<lparr>octets = map of_nat ns\<rparr> = dotted ns"
    unfolding AmsNetId_repr_def dotted_def by (simp only: AmsNetId.select_convs)
  from a b show ?thesis by simp
qed

text \<open>The scenario of the specification, \<^verbatim>\<open>172.21.148.227.1.1\<close>, is an instance.\<close>

theorem from_string_round_trip_witness:
  "from_string ''172.21.148.227.1.1'' = Inr \<lparr>octets = [172, 21, 148, 227, 1, 1]\<rparr> \<and>
   AmsNetId_repr \<lparr>octets = [172, 21, 148, 227, 1, 1]\<rparr> = ''172.21.148.227.1.1''"
proof -
  have d: "dotted [172, 21, 148, 227, 1, 1] = ''172.21.148.227.1.1''"
    by code_simp
  have h1: "length [172, 21, 148, 227, 1, 1 :: nat] = 6" by simp
  have h2: "list_all (\<lambda>n. n < 256) [172, 21, 148, 227, 1, 1 :: nat]" by simp
  from from_string_round_trip [OF h1 h2] show ?thesis unfolding d by simp
qed

text \<open>
  Claim C5 as stated fails: \<open>from_string\<close> also accepts parts that are not in shortest
  decimal form (here a leading zero), and formatting the result does not give the
  input back.
\<close>

theorem from_string_leading_zero:
  "from_string ''01.2.3.4.5.6'' = Inr \<lparr>octets = [1, 2, 3, 4, 5, 6]\<rparr> \<and>
   AmsNetId_repr \<lparr>octets = [1, 2, 3, 4, 5, 6]\<rparr> \<noteq> ''01.2.3.4.5.6''"
  by code_simp


section \<open>Proofs: layout of the headers\<close>

lemma length_le_bytes: "length (le_bytes n v) = n"
  by (induction n arbitrary: v) auto

text \<open>With \<^verbatim>\<open>_pack_ = 1\<close> no field is ever moved: there is no padding.\<close>

lemma align_up_packed: "align_up off (effective_align pack_AdsStructBase a) = off"
  by (cases "a = 0") (simp_all add: align_up_def effective_align_def min_def pack_AdsStructBase_def)

lemma stg_fields_packed:
  "stg_fields pack_AdsStructBase ts (off, 1) = (off + sum_list (map (sizeof pack_AdsStructBase) ts), 1)"
proof (induction ts arbitrary: off)
  case Nil
  then show ?case by simp
next
  case (Cons t ts)
  have "max 1 (effective_align pack_AdsStructBase (snd (stg pack_AdsStructBase t))) = 1"
    by (simp add: effective_align_def pack_AdsStructBase_def)
  with Cons show ?case
    by (simp add: align_up_packed sizeof_def Let_def)
qed

lemma sizeof_Structure_packed:
  "sizeof pack_AdsStructBase (Structure ts) = sum_list (map (sizeof pack_AdsStructBase) ts)"
  using stg_fields_packed [of ts 0] by (simp add: sizeof_def align_up_def Let_def)

lemma place_fields_packed: "place_fields pack_AdsStructBase fs off = concat (map snd fs)"
  by (induction fs arbitrary: off) (simp_all add: align_up_packed Let_def)

lemma field_offsets_packed_Cons:
  "field_offsets pack_AdsStructBase (t # ts) off = off # field_offsets pack_AdsStructBase ts (off + sizeof pack_AdsStructBase t)"
  by (simp add: align_up_packed Let_def)

lemma struct_bytes_packed:
  "length (concat (map snd fs)) = sum_list (map (sizeof pack_AdsStructBase) (map fst fs)) \<Longrightarrow>
   struct_bytes pack_AdsStructBase fs = concat (map snd fs)"
  by (simp add: struct_bytes_def place_fields_packed sizeof_Structure_packed Let_def)

lemma sizeof_scalars:
  "sizeof pack c_uint8 = 1" "sizeof pack c_uint16 = 2" "sizeof pack c_uint32 = 4"
  "sizeof pack (Array t n) = sizeof pack t * n"
  by (simp_all add: sizeof_def)

lemma sizeof_AmsNetId: "sizeof pack_AdsStructBase AmsNetId_t = 6"
  by (simp add: AmsNetId_t_def AmsNetId_fields_def sizeof_Structure_packed sizeof_scalars)

lemma sizeof_AmsAddr: "sizeof pack_AdsStructBase AmsAddr_t = 8"
  by (simp add: AmsAddr_t_def AmsAddr_fields_def sizeof_Structure_packed sizeof_scalars
      sizeof_AmsNetId)

lemma sizeof_AoEHeader: "sizeof pack_AdsStructBase AoEHeader_t = 32"
  by (simp add: AoEHeader_t_def AoEHeader_fields_def sizeof_Structure_packed sizeof_scalars
      sizeof_AmsAddr)

lemma sizeof_AmsTcpHeader: "sizeof pack_AdsStructBase AmsTcpHeader_t = 6"
  by (simp add: AmsTcpHeader_t_def AmsTcpHeader_fields_def sizeof_Structure_packed
      sizeof_scalars)

lemma length_octet_bytes:
  "length (concat (map (\<lambda>c. le_bytes 1 (uint c)) xs)) = length (xs :: 8 word list)"
  by (induction xs) (simp_all add: length_le_bytes)

lemma AmsNetId_bytes_eq:
  "length (octets n) = 6 \<Longrightarrow>
   AmsNetId_bytes n = concat (map (\<lambda>c. le_bytes 1 (uint c)) (octets n))"
  unfolding AmsNetId_bytes_def
  by (subst struct_bytes_packed)
     (simp_all add: AmsNetId_fields_def sizeof_scalars length_octet_bytes)

lemma length_AmsNetId_bytes: "length (octets n) = 6 \<Longrightarrow> length (AmsNetId_bytes n) = 6"
  by (simp add: AmsNetId_bytes_eq length_octet_bytes)

lemma AmsAddr_bytes_eq:
  "length (octets (net_id a)) = 6 \<Longrightarrow>
   AmsAddr_bytes a = AmsNetId_bytes (net_id a) @ le_bytes 2 (uint (port_raw a))"
  unfolding AmsAddr_bytes_def
  by (subst struct_bytes_packed)
     (simp_all add: AmsAddr_fields_def sizeof_scalars sizeof_AmsNetId length_AmsNetId_bytes
       length_le_bytes)

lemma length_AmsAddr_bytes: "length (octets (net_id a)) = 6 \<Longrightarrow> length (AmsAddr_bytes a) = 8"
  by (simp add: AmsAddr_bytes_eq length_AmsNetId_bytes length_le_bytes)

lemma AmsTcpHeader_bytes_eq:
  "AmsTcpHeader_bytes t = le_bytes 2 (uint (reserved t)) @ le_bytes 4 (uint (tcp_length t))"
  unfolding AmsTcpHeader_bytes_def
  by (subst struct_bytes_packed)
     (simp_all add: AmsTcpHeader_fields_def sizeof_scalars length_le_bytes)

lemma AoEHeader_bytes_eq:
  assumes "length (octets (net_id (target h))) = 6" and "length (octets (net_id (source h))) = 6"
  shows "AoEHeader_bytes h =
           AmsAddr_bytes (target h) @ AmsAddr_bytes (source h) @
           le_bytes 2 (uint (command_id_raw h)) @ le_bytes 2 (uint (state_flags_raw h)) @
           le_bytes 4 (uint (hdr_length h)) @ le_bytes 4 (uint (error_code h)) @
           le_bytes 4 (uint (invoke_id h))"
  unfolding AoEHeader_bytes_def
  by (subst struct_bytes_packed)
     (simp_all add: AoEHeader_fields_def sizeof_scalars sizeof_AmsAddr length_AmsAddr_bytes
       assms length_le_bytes)

lemma AoEHeader_offsets:
  "field_offsets pack_AdsStructBase (map snd AoEHeader_fields) 0 = [0, 8, 16, 18, 20, 24, 28]"
  by (simp add: AoEHeader_fields_def field_offsets_packed_Cons sizeof_scalars sizeof_AmsAddr
      del: field_offsets.simps(2))

lemma AmsTcpHeader_offsets:
  "field_offsets pack_AdsStructBase (map snd AmsTcpHeader_fields) 0 = [0, 2]"
  by (simp add: AmsTcpHeader_fields_def field_offsets_packed_Cons sizeof_scalars
      del: field_offsets.simps(2))

text \<open>
  Claim C6. For every \<^verbatim>\<open>AoEHeader\<close> whose two net ids hold their six octets, the
  serialised header is exactly 32 bytes: target (8), source (8), command id (2), state
  flags (2), length (4), error code (4), invoke id (4), each integer little-endian, at
  offsets 0, 8, 16, 18, 20, 24, 28 with nothing in between. Every \<^verbatim>\<open>AmsTcpHeader\<close>
  is exactly 6 bytes: reserved (2), length (4), at offsets 0 and 2.
\<close>

theorem wire_header_layout:
  assumes "length (octets (net_id (target h))) = 6" and "length (octets (net_id (source h))) = 6"
  shows "length (AoEHeader_bytes h) = 32 \<and>
         AoEHeader_bytes h =
           AmsAddr_bytes (target h) @ AmsAddr_bytes (source h) @
           le_bytes 2 (uint (command_id_raw h)) @ le_bytes 2 (uint (state_flags_raw h)) @
           le_bytes 4 (uint (hdr_length h)) @ le_bytes 4 (uint (error_code h)) @
           le_bytes 4 (uint (invoke_id h)) \<and>
         length (AmsAddr_bytes (target h)) = 8 \<and>
         length (AmsAddr_bytes (source h)) = 8 \<and>
         sizeof pack_AdsStructBase AoEHeader_t = 32 \<and>
         field_offsets pack_AdsStructBase (map snd AoEHeader_fields) 0 = [0, 8, 16, 18, 20, 24, 28] \<and>
         length (AmsTcpHeader_bytes t) = 6 \<and>
         AmsTcpHeader_bytes t = le_bytes 2 (uint (reserved t)) @ le_bytes 4 (uint (tcp_length t)) \<and>
         sizeof pack_AdsStructBase AmsTcpHeader_t = 6 \<and>
         field_offsets pack_AdsStructBase (map snd AmsTcpHeader_fields) 0 = [0, 2]"
proof -
  note eq = AoEHeader_bytes_eq [OF assms]
  have "length (AoEHeader_bytes h) = 32"
    by (simp add: eq length_AmsAddr_bytes assms length_le_bytes)
  moreover have "length (AmsTcpHeader_bytes t) = 6"
    by (simp add: AmsTcpHeader_bytes_eq length_le_bytes)
  ultimately show ?thesis
    using eq assms
    by (simp only: AoEHeader_offsets AmsTcpHeader_offsets AmsTcpHeader_bytes_eq
        length_AmsAddr_bytes sizeof_AoEHeader sizeof_AmsTcpHeader
        simp_thms)
qed

text \<open>A request header and the frame header before it, byte by byte.\<close>

theorem wire_header_layout_witness:
  "length (octets (net_id (target
      \<lparr>target = \<lparr>net_id = \<lparr>octets = [172, 21, 148, 227, 1, 1]\<rparr>, port_raw = 851\<rparr>,
       source = \<lparr>net_id = \<lparr>octets = [172, 21, 148, 164, 1, 1]\<rparr>, port_raw = 32768\<rparr>,
       command_id_raw = 1, state_flags_raw = 4, hdr_length = 0, error_code = 0,
       invoke_id = 258\<rparr>))) = 6 \<and>
   AoEHeader_bytes
      \<lparr>target = \<lparr>net_id = \<lparr>octets = [172, 21, 148, 227, 1, 1]\<rparr>, port_raw = 851\<rparr>,
       source = \<lparr>net_id = \<lparr>octets = [172, 21, 148, 164, 1, 1]\<rparr>, port_raw = 32768\<rparr>,
       command_id_raw = 1, state_flags_raw = 4, hdr_length = 0, error_code = 0,
       invoke_id = 258\<rparr> =
     [172, 21, 148, 227, 1, 1, 83, 3,  172, 21, 148, 164, 1, 1, 0, 128,
      1, 0,  4, 0,  0, 0, 0, 0,  0, 0, 0, 0,  2, 1, 0, 0] \<and>
   AmsTcpHeader_bytes \<lparr>reserved = 0, tcp_length = 32\<rparr> = [0, 0, 32, 0, 0, 0]"
proof -
  have n: "\<And>xs. length (xs :: 8 word list) = 6 \<Longrightarrow>
             AmsNetId_bytes \<lparr>octets = xs\<rparr> = concat (map (\<lambda>c. le_bytes 1 (uint c)) xs)"
    by (simp add: AmsNetId_bytes_eq)
  have l2: "\<And>v. le_bytes 2 v = [word_of_int v, word_of_int (v div 256)]"
    by (simp add: numeral_2_eq_2)
  have l4: "\<And>v. le_bytes 4 v = [word_of_int v, word_of_int (v div 256),
              word_of_int (v div 256 div 256), word_of_int (v div 256 div 256 div 256)]"
    by (simp add: eval_nat_numeral)
  from wire_header_layout [of
      "\<lparr>target = \<lparr>net_id = \<lparr>octets = [172, 21, 148, 227, 1, 1]\<rparr>, port_raw = 851\<rparr>,
       source = \<lparr>net_id = \<lparr>octets = [172, 21, 148, 164, 1, 1]\<rparr>, port_raw = 32768\<rparr>,
       command_id_raw = 1, state_flags_raw = 4, hdr_length = 0, error_code = 0,
       invoke_id = 258\<rparr>" "\<lparr>reserved = 0, tcp_length = 32\<rparr>"]
  show ?thesis
    by (simp add: AmsAddr_bytes_eq n l2 l4)
qed


section \<open>Proofs: the lenient port property\<close>

text \<open>
  Claim C7. For every 16-bit port value \<open>p\<close> that is the value of no member of
  \<^verbatim>\<open>AmsPort\<close>, reading \<^verbatim>\<open>port\<close> of an address whose field holds \<open>p\<close> returns the
  plain integer \<open>p\<close>, writing that integer to any address stores \<open>p\<close> in the field,
  and so writing back what was read leaves the address as it was.
\<close>

theorem unknown_port_round_trip:
  assumes "enum_call AmsPort (Raw (uint p)) = Inl ValueError"
  shows "AmsAddr_port AmsPort (a\<lparr>port_raw := p\<rparr>) = Inr (Raw (uint p)) \<and>
         AmsAddr_set_port AmsPort (Raw (uint p)) b = Inr (b\<lparr>port_raw := p\<rparr>) \<and>
         AmsAddr_set_port AmsPort (Raw (uint p)) (a\<lparr>port_raw := p\<rparr>) = Inr (a\<lparr>port_raw := p\<rparr>)"
  using assms
  by (simp add: AmsAddr_port_def AmsAddr_set_port_def fget_def fset_def)

text \<open>Port 12345 against a table with two known ports.\<close>

theorem unknown_port_round_trip_witness:
  "enum_call [(''LOGGER'', 100), (''R0_PLC_TC3'', 851)] (Raw (uint (12345 :: 16 word))) = Inl ValueError \<and>
   AmsAddr_port [(''LOGGER'', 100), (''R0_PLC_TC3'', 851)]
     \<lparr>net_id = \<lparr>octets = [172, 21, 148, 227, 1, 1]\<rparr>, port_raw = 12345\<rparr> = Inr (Raw 12345) \<and>
   AmsAddr_set_port [(''LOGGER'', 100), (''R0_PLC_TC3'', 851)] (Raw 12345)
     \<lparr>net_id = \<lparr>octets = [172, 21, 148, 227, 1, 1]\<rparr>, port_raw = 0\<rparr> =
     Inr \<lparr>net_id = \<lparr>octets = [172, 21, 148, 227, 1, 1]\<rparr>, port_raw = 12345\<rparr>"
proof -
  have h: "enum_call [(''LOGGER'', 100), (''R0_PLC_TC3'', 851)] (Raw (uint (12345 :: 16 word))) = Inl ValueError"
    by (simp add: enum_call_def)
  from unknown_port_round_trip [OF h,
      of "\<lparr>net_id = \<lparr>octets = [172, 21, 148, 227, 1, 1]\<rparr>, port_raw = 0\<rparr>"
         "\<lparr>net_id = \<lparr>octets = [172, 21, 148, 227, 1, 1]\<rparr>, port_raw = 0\<rparr>"] h
  show ?thesis by simp
qed


section \<open>Proofs: the symbol cache\<close>

lemma get_symbol_by_name_hit:
  "map_of (symbols s) nm = Some r \<Longrightarrow> get_symbol_by_name nm s = (r, s)"
  by (simp add: get_symbol_by_name_def)

lemma get_symbol_by_name_miss:
  assumes "map_of (symbols s) nm = None"
  shows "fst (get_symbol_by_name nm s) = n_Symbols s"
    and "n_Symbols (snd (get_symbol_by_name nm s)) = Suc (n_Symbols s)"
    and "Symbols (snd (get_symbol_by_name nm s)) (n_Symbols s) = Symbol_init nm"
    and "symbols (snd (get_symbol_by_name nm s)) = symbols s @ [(nm, n_Symbols s)]"
    and "q \<noteq> n_Symbols s \<Longrightarrow> Symbols (snd (get_symbol_by_name nm s)) q = Symbols s q"
    and "other \<noteq> nm \<Longrightarrow>
         map_of (symbols (snd (get_symbol_by_name nm s))) other = map_of (symbols s) other"
  using assms
  by (auto simp: get_symbol_by_name_def Let_def map_add_def split: option.split)

lemma get_symbol_by_name_caches:
  "map_of (symbols (snd (get_symbol_by_name nm s))) nm = Some (fst (get_symbol_by_name nm s))"
  by (cases "map_of (symbols s) nm") (simp_all add: get_symbol_by_name_def Let_def map_add_def)

lemma get_symbol_by_name_keeps:
  "map_of (symbols s) nm = Some r \<Longrightarrow>
   map_of (symbols (snd (get_symbol_by_name other s))) nm = Some r"
  by (cases "map_of (symbols s) other") (simp_all add: get_symbol_by_name_def Let_def)

lemma lookups_keep:
  "map_of (symbols s) nm = Some r \<Longrightarrow>
   map_of (symbols (fold (\<lambda>n t. snd (get_symbol_by_name n t)) others s)) nm = Some r"
  by (induction others arbitrary: s) (simp_all add: get_symbol_by_name_keeps)

lemma get_symbol_by_name_wf:
  assumes "cache_wf s"
  shows "cache_wf (snd (get_symbol_by_name nm s))"
proof (cases "map_of (symbols s) nm")
  case None
  from assms have "n_Symbols s \<notin> set (map snd (symbols s))"
    by (auto simp: cache_wf_def list_all_iff)
  with assms None show ?thesis
    by (auto simp: cache_wf_def get_symbol_by_name_def Let_def list_all_iff)
next
  case (Some r)
  with assms show ?thesis by (simp add: get_symbol_by_name_def)
qed

lemma distinct_instances:
  assumes wf: "cache_wf s" and ne: "other \<noteq> nm" and c: "map_of (symbols s) nm = Some r"
  shows "fst (get_symbol_by_name other s) \<noteq> r"
proof (cases "map_of (symbols s) other")
  case None
  from c have "r \<in> set (map snd (symbols s))"
    by (force dest: map_of_SomeD)
  with wf have "r < n_Symbols s"
    by (auto simp: cache_wf_def list_all_iff)
  with None show ?thesis
    by (simp add: get_symbol_by_name_def Let_def)
next
  case (Some q)
  from c have a: "(nm, r) \<in> set (symbols s)" by (rule map_of_SomeD)
  from Some have b: "(other, q) \<in> set (symbols s)" by (rule map_of_SomeD)
  from wf have inj: "inj_on snd (set (symbols s))"
    by (simp add: cache_wf_def distinct_map)
  have "q \<noteq> r"
  proof
    assume "q = r"
    with b have "(other, r) \<in> set (symbols s)" by simp
    with inj_onD [OF inj, of "(nm, r)" "(other, r)"] a have "(nm, r) = (other, r)"
      by simp
    with ne show False by simp
  qed
  with Some show ?thesis
    by (simp add: get_symbol_by_name_def)
qed

text \<open>
  Claim C9. For every name and every client state, with \<open>r\<close> the reference that
  \<open>get_symbol_by_name\<close> returns: afterwards the cache holds \<open>r\<close> under the name.
  When the name was cached, \<open>r\<close> is the cached reference and nothing changes. When it
  was not, \<open>r\<close> is a new reference whose object is a fresh \<^verbatim>\<open>Symbol\<close> of that name, it
  is added to the cache under the name, and no other object or cache entry changes. A
  second lookup of the name returns \<open>r\<close> again and changes nothing, also when any
  number of lookups (of any names) lie between the two. The shape of the cache is kept,
  and in a cache of that shape a lookup of a different name returns a different object.
\<close>

theorem get_symbol_by_name_same_instance:
  "map_of (symbols (snd (get_symbol_by_name nm s))) nm = Some (fst (get_symbol_by_name nm s)) \<and>
   (\<forall>r. map_of (symbols s) nm = Some r \<longrightarrow> get_symbol_by_name nm s = (r, s)) \<and>
   (map_of (symbols s) nm = None \<longrightarrow>
      fst (get_symbol_by_name nm s) = n_Symbols s \<and>
      n_Symbols (snd (get_symbol_by_name nm s)) = Suc (n_Symbols s) \<and>
      Symbols (snd (get_symbol_by_name nm s)) (n_Symbols s) = Symbol_init nm \<and>
      symbols (snd (get_symbol_by_name nm s)) = symbols s @ [(nm, n_Symbols s)] \<and>
      (\<forall>q. q \<noteq> n_Symbols s \<longrightarrow> Symbols (snd (get_symbol_by_name nm s)) q = Symbols s q) \<and>
      (\<forall>other. other \<noteq> nm \<longrightarrow>
         map_of (symbols (snd (get_symbol_by_name nm s))) other = map_of (symbols s) other)) \<and>
   fst (get_symbol_by_name nm (snd (get_symbol_by_name nm s))) = fst (get_symbol_by_name nm s) \<and>
   snd (get_symbol_by_name nm (snd (get_symbol_by_name nm s))) = snd (get_symbol_by_name nm s) \<and>
   fst (get_symbol_by_name nm
         (fold (\<lambda>n t. snd (get_symbol_by_name n t)) others (snd (get_symbol_by_name nm s)))) =
     fst (get_symbol_by_name nm s) \<and>
   (cache_wf s \<longrightarrow>
      cache_wf (snd (get_symbol_by_name nm s)) \<and>
      (\<forall>other. other \<noteq> nm \<longrightarrow>
         fst (get_symbol_by_name other (snd (get_symbol_by_name nm s))) \<noteq>
         fst (get_symbol_by_name nm s)))"
proof -
  let ?r = "fst (get_symbol_by_name nm s)" and ?s1 = "snd (get_symbol_by_name nm s)"
  have c: "map_of (symbols ?s1) nm = Some ?r"
    by (rule get_symbol_by_name_caches)
  have hit: "\<forall>r. map_of (symbols s) nm = Some r \<longrightarrow> get_symbol_by_name nm s = (r, s)"
    by (simp add: get_symbol_by_name_hit)
  have miss: "map_of (symbols s) nm = None \<longrightarrow>
      ?r = n_Symbols s \<and>
      n_Symbols ?s1 = Suc (n_Symbols s) \<and>
      Symbols ?s1 (n_Symbols s) = Symbol_init nm \<and>
      symbols ?s1 = symbols s @ [(nm, n_Symbols s)] \<and>
      (\<forall>q. q \<noteq> n_Symbols s \<longrightarrow> Symbols ?s1 q = Symbols s q) \<and>
      (\<forall>other. other \<noteq> nm \<longrightarrow> map_of (symbols ?s1) other = map_of (symbols s) other)"
    by (intro impI conjI allI) (rule get_symbol_by_name_miss; assumption)+
  have again: "get_symbol_by_name nm ?s1 = (?r, ?s1)"
    using c by (rule get_symbol_by_name_hit)
  have later: "get_symbol_by_name nm (fold (\<lambda>n t. snd (get_symbol_by_name n t)) others ?s1) =
      (?r, fold (\<lambda>n t. snd (get_symbol_by_name n t)) others ?s1)"
    using lookups_keep [OF c] by (rule get_symbol_by_name_hit)
  have wf: "cache_wf s \<longrightarrow>
      cache_wf ?s1 \<and>
      (\<forall>other. other \<noteq> nm \<longrightarrow> fst (get_symbol_by_name other ?s1) \<noteq> ?r)"
  proof (intro impI conjI allI)
    assume "cache_wf s"
    then show "cache_wf ?s1" by (rule get_symbol_by_name_wf)
  next
    fix other
    assume w: "cache_wf s" and ne: "other \<noteq> nm"
    from w have "cache_wf ?s1" by (rule get_symbol_by_name_wf)
    from this ne c show "fst (get_symbol_by_name other ?s1) \<noteq> ?r"
      by (rule distinct_instances)
  qed
  from again have again1: "fst (get_symbol_by_name nm ?s1) = ?r"
    and again2: "snd (get_symbol_by_name nm ?s1) = ?s1"
    by simp_all
  from later have later1:
    "fst (get_symbol_by_name nm (fold (\<lambda>n t. snd (get_symbol_by_name n t)) others ?s1)) = ?r"
    by simp
  show ?thesis
    by (rule conjI [OF c conjI [OF hit conjI [OF miss conjI [OF again1
          conjI [OF again2 conjI [OF later1 wf]]]]]])
qed

text \<open>
  On the session's client: the first lookup of \<^verbatim>\<open>A\<close> makes object 0, the lookup of
  \<^verbatim>\<open>B\<close> makes object 1, and the second lookup of \<^verbatim>\<open>A\<close> returns object 0.
\<close>

theorem get_symbol_by_name_same_instance_witness:
  "cache_wf session_client \<and>
   map_of (symbols session_client) ''A'' = None \<and>
   fst (get_symbol_by_name ''A'' session_client) = 0 \<and>
   name (Symbols (snd (get_symbol_by_name ''A'' session_client)) 0) = Some ''A'' \<and>
   symbols (snd (get_symbol_by_name ''A'' session_client)) = [(''A'', 0)] \<and>
   fst (get_symbol_by_name ''B'' (snd (get_symbol_by_name ''A'' session_client))) = 1 \<and>
   fst (get_symbol_by_name ''B'' (snd (get_symbol_by_name ''A'' session_client))) \<noteq>
     fst (get_symbol_by_name ''A'' session_client) \<and>
   fst (get_symbol_by_name ''A''
         (snd (get_symbol_by_name ''B'' (snd (get_symbol_by_name ''A'' session_client))))) = 0"
proof -
  have w: "cache_wf session_client"
    by (simp add: cache_wf_def session_client_def connection_opened_def AsyncioClient_init_def)
  have m: "map_of (symbols session_client) ''A'' = None"
    and n: "n_Symbols session_client = 0"
    and e: "symbols session_client = []"
    by (simp_all add: session_client_def connection_opened_def AsyncioClient_init_def)
  note inst = get_symbol_by_name_same_instance [of "''A''" session_client "[''B'']"]
  from inst m n e have a: "fst (get_symbol_by_name ''A'' session_client) = 0"
    and b: "Symbols (snd (get_symbol_by_name ''A'' session_client)) 0 = Symbol_init ''A''"
    and c: "symbols (snd (get_symbol_by_name ''A'' session_client)) = [(''A'', 0)]"
    and k: "n_Symbols (snd (get_symbol_by_name ''A'' session_client)) = Suc 0"
    by simp_all
  from inst w have d: "fst (get_symbol_by_name ''B'' (snd (get_symbol_by_name ''A'' session_client))) \<noteq>
      fst (get_symbol_by_name ''A'' session_client)"
    by simp
  from inst a have f: "fst (get_symbol_by_name ''A''
         (snd (get_symbol_by_name ''B'' (snd (get_symbol_by_name ''A'' session_client))))) = 0"
    by simp
  have g: "fst (get_symbol_by_name ''B'' (snd (get_symbol_by_name ''A'' session_client))) = 1"
    by (simp add: get_symbol_by_name_def [of "''B''"] c k)
  from w m a b c d f g show ?thesis
    by (simp add: Symbol_init_def)
qed

section \<open>Proofs: adding a callback\<close>

text \<open>
  Claim C8. For every notification and callback, \<open>add_callback\<close> submits to the
  callback executor exactly this: when the callback set was empty, the subscribe job
  and no sample; when it was not empty and a most recent sample exists, one call of the
  new callback with that sample; otherwise nothing. Nothing is written to the
  connection and the sample kept is unchanged.
\<close>

theorem add_callback_delivers_cached_sample:
  "user_callback_executor (snd (Notification_add_callback r func s)) =
     user_callback_executor s @
       (if callbacks (Notifications s r) = [] then [Subscribe r]
        else (case most_recent_notification (Notifications s r) of
                None \<Rightarrow> []
              | Some notification \<Rightarrow> [Call func r notification])) \<and>
   writer (snd (Notification_add_callback r func s)) = writer s \<and>
   most_recent_notification (Notifications (snd (Notification_add_callback r func s)) r) =
     most_recent_notification (Notifications s r) \<and>
   callbacks (Notifications (snd (Notification_add_callback r func s)) r) =
     callbacks (Notifications s r) @ [(fst (Notification_add_callback r func s), func)]"
  by (simp add: Notification_add_callback_def Let_def set_Notification_def
      CallbackHandler_add_callback_def Notification_subscribe_def split: option.split)


section \<open>Proofs: the concrete session\<close>

lemmas session_defs =
  session_client_def session_writer_def connection_opened_def AsyncioClient_init_def
  session_subscribing_def session_subscribed_def client_run_def no_generic_handler_def
  add_notification_by_index_def Notification_add_callback_def run_subscribe_def send_def
  set_Notification_def Notification_init_def CallbackHandler_add_callback_def
  Notification_subscribe_def request_to_wire_def append_handler_def port_or_def
  handle_command_def Notification_response_handler_def Notification_process_def
  CallbackHandler_process_def response_header_def

lemma session_subscribing_state:
  "handle (Notifications session_subscribing 0) = None"
  "callbacks (Notifications session_subscribing 0) = [(0, 7)]"
  "response_handlers session_subscribing 0 = Some [ResponseHandler 0]"
  "calls session_subscribing = []"
  "user_callback_executor session_subscribing = [Subscribe 0]"
  "writer session_subscribing =
     Some \<lparr>wire = [Written \<lparr>frame_invoke_id = 0,
                              frame_items = [AddNotificationByIndex 1 65535 255 3 1 100],
                              frame_port = 851\<rparr>],
           drain_raises = False, close_raises = False\<rparr>"
  by (simp_all add: session_defs Let_def)

lemma session_subscribed_state:
  "handle (Notifications session_subscribed 0) = Some 42"
  "callbacks (Notifications session_subscribed 0) = [(0, 7)]"
  "most_recent_notification (Notifications session_subscribed 0) =
     Some (response_header 0, 1000, [1, 2])"
  "writer session_subscribed = writer session_subscribing"
  by (simp_all add: session_defs Let_def NOERR_def)

section \<open>Proofs: removing the last callback\<close>

lemma unsubscribe_never_writes:
  "writer (snd (Notification_unsubscribe r s)) = writer s"
  by (simp add: Notification_unsubscribe_def set_Notification_def Let_def
      owner_remove_notification_def split: option.split)

lemma unsubscribe_returns:
  "fst (Notification_unsubscribe r s) = Inr ()"
  by (simp add: Notification_unsubscribe_def set_Notification_def Let_def split: option.split)

lemma remove_callback_never_writes:
  "writer (snd (Notification_remove_callback r token s)) = writer s"
proof -
  let ?s1 = "set_Notification r (CallbackHandler_remove_callback token (Notifications s r)) s"
  obtain res s2 where u: "Notification_unsubscribe r ?s1 = (res, s2)"
    by (cases "Notification_unsubscribe r ?s1")
  have "writer (snd (Notification_unsubscribe r ?s1)) = writer ?s1"
    by (rule unsubscribe_never_writes)
  with u have "writer s2 = writer s"
    by (simp add: set_Notification_def)
  with u show ?thesis
    by (cases res) (simp_all add: Notification_remove_callback_def Let_def set_Notification_def)
qed

text \<open>
  Claim C3 at work. In the session the notification has the handle 42, one callback
  and a cached sample, and the connection has carried the add-notification request.
  Removing that callback returns normally and clears the handle and the sample, but the
  writer is what it was before: no remove-notification command has been written.
\<close>

theorem remove_last_callback_sends_nothing:
  "handle (Notifications session_subscribed 0) = Some 42 \<and>
   callbacks (Notifications session_subscribed 0) = [(0, 7)] \<and>
   most_recent_notification (Notifications session_subscribed 0) =
     Some (response_header 0, 1000, [1, 2]) \<and>
   fst (Notification_remove_callback 0 0 session_subscribed) = Inr () \<and>
   callbacks (Notifications (snd (Notification_remove_callback 0 0 session_subscribed)) 0) = [] \<and>
   handle (Notifications (snd (Notification_remove_callback 0 0 session_subscribed)) 0) = None \<and>
   most_recent_notification
     (Notifications (snd (Notification_remove_callback 0 0 session_subscribed)) 0) = None \<and>
   writer (snd (Notification_remove_callback 0 0 session_subscribed)) =
     Some \<lparr>wire = [Written \<lparr>frame_invoke_id = 0,
                              frame_items = [AddNotificationByIndex 1 65535 255 3 1 100],
                              frame_port = 851\<rparr>],
           drain_raises = False, close_raises = False\<rparr>"
proof -
  have a: "fst (Notification_remove_callback 0 0 session_subscribed) = Inr ()"
    by (simp add: Notification_remove_callback_def Let_def set_Notification_def
        CallbackHandler_remove_callback_def session_subscribed_state
        Notification_unsubscribe_def)
  have b: "callbacks (Notifications (snd (Notification_remove_callback 0 0 session_subscribed)) 0) = []
         \<and> handle (Notifications (snd (Notification_remove_callback 0 0 session_subscribed)) 0) = None
         \<and> most_recent_notification
             (Notifications (snd (Notification_remove_callback 0 0 session_subscribed)) 0) = None"
    by (simp add: Notification_remove_callback_def Let_def set_Notification_def
        CallbackHandler_remove_callback_def session_subscribed_state
        Notification_unsubscribe_def)
  have c: "writer (snd (Notification_remove_callback 0 0 session_subscribed)) =
           writer session_subscribing"
    by (simp add: remove_callback_never_writes session_subscribed_state)
  from a b c show ?thesis
    by (simp add: session_subscribed_state session_subscribing_state)
qed

section \<open>Proofs: blocking requests\<close>

lemma getattr_result: "getattr req ''result'' PyNone = PyNone"
  by (simp add: getattr_def BlockingRequest_attr_def)

lemma write_and_read_resume_eq:
  "write_and_read_resume r s =
     (if event (BlockingRequests s r) then Some (Inr (response (BlockingRequests s r))) else None)"
  by (simp add: write_and_read_resume_def Let_def getattr_result)

text \<open>
  Claim C1 at work. A device-info request is sent from the session's client as request
  object 0 with invocation id 0; the caller stays suspended until the frame with that
  id is dispatched. The response carries the result code 1, which is not "no error",
  and \<open>write_and_read\<close> returns that record instead of raising
  \<^verbatim>\<open>FailureResponse\<close>.
\<close>

theorem write_and_read_returns_failed_response:
  "fst (write_and_read_send GetDeviceInformation None session_client) = Inr 0 \<and>
   response_handlers (snd (write_and_read_send GetDeviceInformation None session_client)) 0 =
     Some [GotResponse 0] \<and>
   write_and_read_resume 0
     (snd (write_and_read_send GetDeviceInformation None session_client)) = None \<and>
   item_result (AoEResponse 1 []) = Some 1 \<and> (1 :: 32 word) \<noteq> NOERR \<and>
   write_and_read_resume 0
     (handle_command no_generic_handler (response_header 0) (AoEResponse 1 [])
       (snd (write_and_read_send GetDeviceInformation None session_client))) =
     Some (Inr (Some (AoEResponse 1 [])))"
  by (simp add: write_and_read_resume_eq write_and_read_send_def session_defs Let_def
      set_BlockingRequest_def BlockingRequest_init_def got_response_def NOERR_def)


section \<open>Proofs: dispatch of response handlers\<close>

lemma call_handler_frame:
  "response_handlers (snd (call_handler h hdr it s)) = response_handlers s"
  "calls (snd (call_handler h hdr it s)) = calls s"
  by (cases h; simp add: got_response_def set_BlockingRequest_def
      Notification_response_handler_def set_Notification_def Let_def split: option.split)+

lemma run_handlers_frame:
  "response_handlers (run_handlers hs hdr it s) = response_handlers s \<and>
   calls (run_handlers hs hdr it s) = calls s @ map (\<lambda>h. (h, hdr, it)) hs"
  by (induction hs arbitrary: s) (simp_all add: call_handler_frame)

lemma handle_command_frame:
  "response_handlers (handle_command hc hdr it s) = response_handlers s \<and>
   calls (handle_command hc hdr it s) =
     calls s @ map (\<lambda>h. (h, hdr, it))
       (case response_handlers s (unat (invoke_id hdr)) of None \<Rightarrow> [] | Some hs \<Rightarrow> hs)"
  by (simp add: handle_command_def Let_def run_handlers_frame)

lemma send_registers:
  "response_handlers (snd (send items p (Some h) s)) =
     append_handler (next_invoke_id (client s)) h (response_handlers s)"
  by (simp add: send_def Let_def request_to_wire_def split: option.split)

text \<open>
  Claim C2, as amended. \<open>send\<close> appends the handler to the handlers of the invocation
  id it assigns. Dispatching a frame calls every handler registered for the frame's
  invocation id exactly once, in order of registration, and leaves the table of
  handlers as it was: the handlers stay registered.
\<close>

theorem response_handlers_persist:
  "response_handlers (snd (send items p (Some h) s)) =
     append_handler (next_invoke_id (client s)) h (response_handlers s) \<and>
   calls (handle_command hc hdr it s) =
     calls s @ map (\<lambda>h. (h, hdr, it))
       (case response_handlers s (unat (invoke_id hdr)) of None \<Rightarrow> [] | Some hs \<Rightarrow> hs) \<and>
   response_handlers (handle_command hc hdr it s) = response_handlers s"
  by (simp add: handle_command_frame send_registers)

text \<open>
  Claim C2 as stated fails. In the session, \<open>send\<close> has registered the notification's
  response handler for invocation id 0. The first frame with that id calls it and it is
  still registered afterwards; a second frame with the same id calls it again.
\<close>

theorem response_handler_runs_again:
  "response_handlers session_subscribing 0 = Some [ResponseHandler 0] \<and>
   calls session_subscribing = [] \<and>
   calls (handle_command no_generic_handler (response_header 0)
            (AoENotificationHandleResponse NOERR 42) session_subscribing) =
     [(ResponseHandler 0, response_header 0, AoENotificationHandleResponse NOERR 42)] \<and>
   response_handlers (handle_command no_generic_handler (response_header 0)
            (AoENotificationHandleResponse NOERR 42) session_subscribing) 0 =
     Some [ResponseHandler 0] \<and>
   calls (handle_command no_generic_handler (response_header 0)
            (AoENotificationHandleResponse NOERR 42)
            (handle_command no_generic_handler (response_header 0)
               (AoENotificationHandleResponse NOERR 42) session_subscribing)) =
     [(ResponseHandler 0, response_header 0, AoENotificationHandleResponse NOERR 42),
      (ResponseHandler 0, response_header 0, AoENotificationHandleResponse NOERR 42)]"
proof -
  have i: "unat (invoke_id (response_header 0)) = 0"
    by (simp add: response_header_def)
  show ?thesis
    by (simp add: handle_command_frame session_subscribing_state i)
qed


section \<open>Proofs: the handle of a notification\<close>

lemma add_callback_handle:
  "handle (Notifications (snd (Notification_add_callback q func s)) r) =
   handle (Notifications s r)"
  by (simp add: Notification_add_callback_def Let_def set_Notification_def
      CallbackHandler_add_callback_def Notification_subscribe_def split: option.split)

lemma remove_callback_handle:
  "handle (Notifications s r) = None \<Longrightarrow>
   handle (Notifications (snd (Notification_remove_callback q token s)) r) = None"
  by (auto simp: Notification_remove_callback_def Let_def set_Notification_def
      CallbackHandler_remove_callback_def Notification_unsubscribe_def
      owner_remove_notification_def split: option.split)

lemma process_handle:
  "handle (Notifications (Notification_process q hdr timestamp sample s) r) =
   handle (Notifications s r)"
  by (simp add: Notification_process_def Let_def set_Notification_def)

lemma send_Notifications: "Notifications (snd (send items p h s)) = Notifications s"
  by (simp add: send_def Let_def split: option.split)

lemma call_handler_other:
  "item_result it \<noteq> Some NOERR \<or> h \<noteq> ResponseHandler r \<Longrightarrow>
   handle (Notifications (snd (call_handler h hdr it s)) r) = handle (Notifications s r)"
  by (cases h) (auto simp: got_response_def set_BlockingRequest_def
      Notification_response_handler_def set_Notification_def Let_def split: option.split)

lemma run_handlers_other:
  "item_result it \<noteq> Some NOERR \<or> ResponseHandler r \<notin> set hs \<Longrightarrow>
   handle (Notifications (run_handlers hs hdr it s) r) = handle (Notifications s r)"
proof (induction hs arbitrary: s)
  case Nil
  then show ?case by simp
next
  case (Cons h hs)
  let ?s1 = "snd (call_handler h hdr it (s\<lparr>calls := calls s @ [(h, hdr, it)]\<rparr>))"
  from Cons.prems have "item_result it \<noteq> Some NOERR \<or> h \<noteq> ResponseHandler r"
    by auto
  then have "handle (Notifications ?s1 r) =
             handle (Notifications (s\<lparr>calls := calls s @ [(h, hdr, it)]\<rparr>) r)"
    by (rule call_handler_other)
  moreover from Cons.prems have "item_result it \<noteq> Some NOERR \<or> ResponseHandler r \<notin> set hs"
    by auto
  then have "handle (Notifications (run_handlers hs hdr it ?s1) r) = handle (Notifications ?s1 r)"
    by (rule Cons.IH)
  ultimately show ?case by simp
qed

lemma handle_command_other:
  "\<not> confirms r (Frame hdr it) s \<Longrightarrow>
   handle (Notifications (handle_command hc hdr it s) r) = handle (Notifications s r)"
proof -
  assume "\<not> confirms r (Frame hdr it) s"
  then have "item_result it \<noteq> Some NOERR \<or>
      ResponseHandler r \<notin>
        set (case response_handlers s (unat (invoke_id hdr)) of None \<Rightarrow> [] | Some hs \<Rightarrow> hs)"
    by auto
  then have "handle (Notifications
        (run_handlers
          (case response_handlers s (unat (invoke_id hdr)) of None \<Rightarrow> [] | Some hs \<Rightarrow> hs)
          hdr it (s\<lparr>client := snd (hc hdr it (client s))\<rparr>)) r) =
      handle (Notifications (s\<lparr>client := snd (hc hdr it (client s))\<rparr>) r)"
    by (rule run_handlers_other)
  then show ?thesis
    by (simp add: handle_command_def Let_def)
qed

lemma client_step_handle:
  "\<not> confirms r ev s \<Longrightarrow> handle (Notifications s r) = None \<Longrightarrow>
   handle (Notifications (client_step hc ev s) r) = None"
proof (cases ev)
  case (Frame hdr it)
  assume "\<not> confirms r ev s" and "handle (Notifications s r) = None"
  with Frame show ?thesis
    using handle_command_other [of r hdr it s hc] by simp
qed (simp_all add: add_callback_handle remove_callback_handle process_handle
      run_subscribe_def send_Notifications)

lemma client_run_handle:
  "unconfirmed hc r evs s \<Longrightarrow> handle (Notifications s r) = None \<Longrightarrow>
   handle (Notifications (client_run hc evs s) r) = None"
  unfolding client_run_def
  by (induction evs arbitrary: s) (simp_all add: client_step_handle)

lemma client_run_snoc:
  "client_run hc (evs @ [ev]) s = client_step hc ev (client_run hc evs s)"
  by (simp add: client_run_def)

lemma response_handler_handle:
  "handle (Notifications s r) = None \<Longrightarrow>
   handle (Notifications (snd (Notification_response_handler r hdr resp s)) r) =
     (if item_result resp = Some NOERR then item_handle resp else None)"
  by (auto simp: Notification_response_handler_def set_Notification_def Let_def
      split: option.split)

lemma new_notification_handle:
  "handle (Notifications (snd (add_notification_by_index ig io len mode md ct p s))
            (fst (add_notification_by_index ig io len mode md ct p s))) = None"
  by (simp add: add_notification_by_index_def Let_def set_Notification_def Notification_init_def)

text \<open>
  Claim C4. For every notification made by \<open>add_notification_by_index\<close>: its handle
  is absent at creation; it is still absent after any run of the client (callbacks
  added and removed on any notification, samples pushed, subscribes sent, frames
  dispatched, among them successful responses to other requests) in which no frame with
  the result "no error" reaches the response handler of this notification; and when
  the response handler then processes a response, the handle is the one carried in the
  response if its result is "no error" and stays absent for every other result. The
  same holds when the response arrives as a frame for whose invocation id that handler
  is the one registered.
\<close>

theorem handle_absent_until_confirmed:
  assumes "unconfirmed hc (fst (add_notification_by_index ig io len mode md ct p s)) evs
             (snd (add_notification_by_index ig io len mode md ct p s))"
  shows "let made = add_notification_by_index ig io len mode md ct p s;
             r = fst made;
             s2 = client_run hc evs (snd made)
         in handle (Notifications (snd made) r) = None \<and>
            handle (Notifications s2 r) = None \<and>
            handle (Notifications (snd (Notification_response_handler r hdr resp s2)) r) =
              (if item_result resp = Some NOERR then item_handle resp else None) \<and>
            (response_handlers s2 (unat (invoke_id hdr)) = Some [ResponseHandler r] \<longrightarrow>
             handle (Notifications (handle_command hc hdr resp s2) r) =
               (if item_result resp = Some NOERR then item_handle resp else None))"
proof -
  let ?made = "add_notification_by_index ig io len mode md ct p s"
  let ?r = "fst ?made"
  let ?s2 = "client_run hc evs (snd ?made)"
  have a: "handle (Notifications (snd ?made) ?r) = None"
    by (rule new_notification_handle)
  have b: "handle (Notifications ?s2 ?r) = None"
    using assms a by (rule client_run_handle)
  have c: "handle (Notifications (snd (Notification_response_handler ?r hdr resp ?s2)) ?r) =
             (if item_result resp = Some NOERR then item_handle resp else None)"
    using b by (rule response_handler_handle)
  have d: "handle (Notifications (handle_command hc hdr resp ?s2) ?r) =
             (if item_result resp = Some NOERR then item_handle resp else None)"
    if "response_handlers ?s2 (unat (invoke_id hdr)) = Some [ResponseHandler ?r]"
  proof -
    let ?s3 = "?s2\<lparr>client := snd (hc hdr resp (client ?s2)),
                   calls := calls ?s2 @ [(ResponseHandler ?r, hdr, resp)]\<rparr>"
    have "handle (Notifications ?s3 ?r) = None" using b by simp
    then have "handle (Notifications (snd (Notification_response_handler ?r hdr resp ?s3)) ?r) =
             (if item_result resp = Some NOERR then item_handle resp else None)"
      by (rule response_handler_handle)
    with that show ?thesis
      by (simp add: handle_command_def Let_def)
  qed
  from a b c d show ?thesis
    unfolding Let_def by blast
qed

text \<open>
  The scenario of the specification: after \<^verbatim>\<open>add_notification_by_index(1, 65535, 255)\<close>,
  the first callback and the subscribe, a successful response to some other request
  (invocation id 5) leaves the handle absent; then the confirming frame with handle 42
  sets it to 42, a frame with result 1 does not.
\<close>

theorem handle_absent_until_confirmed_witness:
  "unconfirmed no_generic_handler 0
     [AddCallback 0 7, RunSubscribe 0,
      Frame (response_header 5) (AoENotificationHandleResponse NOERR 9)]
     (snd (add_notification_by_index 1 65535 255 3 1 100 None session_client)) \<and>
   handle (Notifications session_subscribing 0) = None \<and>
   handle (Notifications
     (handle_command no_generic_handler (response_header 5)
        (AoENotificationHandleResponse NOERR 9) session_subscribing) 0) = None \<and>
   handle (Notifications
     (handle_command no_generic_handler (response_header 0)
        (AoENotificationHandleResponse NOERR 42)
        (handle_command no_generic_handler (response_header 5)
           (AoENotificationHandleResponse NOERR 9) session_subscribing)) 0) = Some 42 \<and>
   handle (Notifications
     (handle_command no_generic_handler (response_header 0)
        (AoENotificationHandleResponse 1 42)
        (handle_command no_generic_handler (response_header 5)
           (AoENotificationHandleResponse NOERR 9) session_subscribing)) 0) = None"
proof -
  let ?made = "add_notification_by_index 1 65535 255 3 1 100 None session_client"
  let ?other = "Frame (response_header 5) (AoENotificationHandleResponse NOERR 9)"
  let ?s2 = "handle_command no_generic_handler (response_header 5)
               (AoENotificationHandleResponse NOERR 9) session_subscribing"
  have r: "fst ?made = 0"
    by (simp add: add_notification_by_index_def Let_def session_client_def
        connection_opened_def AsyncioClient_init_def)
  have i0: "unat (invoke_id (response_header 0)) = 0"
    and i5: "unat (invoke_id (response_header 5)) = 5"
    by (simp_all add: response_header_def)
  have run2: "client_run no_generic_handler [AddCallback 0 7, RunSubscribe 0] (snd ?made) =
              session_subscribing"
    by (simp add: session_subscribing_def)
  have t5: "response_handlers session_subscribing 5 = None"
    by (simp add: session_defs Let_def)
  have u2: "unconfirmed no_generic_handler 0 [?other] session_subscribing"
    by (simp add: i5 t5)
  have h: "unconfirmed no_generic_handler 0 [AddCallback 0 7, RunSubscribe 0, ?other] (snd ?made)"
    using u2 run2 by (simp add: client_run_def)
  have run3: "client_run no_generic_handler [AddCallback 0 7, RunSubscribe 0, ?other] (snd ?made) = ?s2"
    by (simp add: client_run_def session_subscribing_def)
  have t: "response_handlers ?s2 0 = Some [ResponseHandler 0]"
    by (simp add: handle_command_frame session_subscribing_state)
  note inst = handle_absent_until_confirmed [of no_generic_handler 1 65535 255 3 1 100 None
      session_client "[AddCallback 0 7, RunSubscribe 0, ?other]" "response_header 0",
      unfolded r, OF h, unfolded Let_def r run3 i0]
  from inst [of "AoENotificationHandleResponse NOERR 42"]
       inst [of "AoENotificationHandleResponse 1 42"] h t
  show ?thesis
    by (simp add: NOERR_def session_subscribing_state)
qed

section \<open>Proofs: closing the client\<close>















section \<open>Further properties\<close>

text \<open>
  Whatever response has woken the caller, \<open>write_and_read\<close> returns it: the outcome
  is never \<^verbatim>\<open>FailureResponse\<close>, and the result code of the response plays no part.
\<close>

theorem write_and_read_resume_outcome:
  "write_and_read_resume r s =
     (if event (BlockingRequests s r) then Some (Inr (response (BlockingRequests s r)))
      else None) \<and>
   write_and_read_resume r s \<noteq> Some (Inl FailureResponse)"
  by (simp add: write_and_read_resume_eq)

text \<open>
  \<open>remove_callback\<close> and \<open>_unsubscribe\<close> write nothing to the connection, in any
  state, and \<open>_unsubscribe\<close> always returns normally.
\<close>

theorem remove_callback_writer_unchanged:
  "writer (snd (Notification_remove_callback r token s)) = writer s \<and>
   writer (snd (Notification_unsubscribe r s)) = writer s \<and>
   fst (Notification_unsubscribe r s) = Inr ()"
  by (simp add: remove_callback_never_writes unsubscribe_never_writes unsubscribe_returns)

end
